theory Spec2Isabelle
  imports Complex_Main "HOL-Library.Multiset"
begin

section \<open>JavaScript values\<close>

text \<open>
  The planner's answer (\<open>JSON.parse(response.output_text)\<close>) and the bodies of the
  mutation requests are untyped JSON. They are modelled by the values JSON can denote,
  together with \<open>undefined\<close>, which is what reading a missing property gives.
  A number is a finite rational (every finite double is one), an infinity
  (\<open>JSON.parse("1e999")\<close>) or NaN.
\<close>

datatype jsnum = Fin rat | PlusInf | MinusInf | NaN

datatype jv =
    Undefined
  | Null
  | Bool bool
  | Num jsnum
  | Str string
  | Arr "jv list"
  | Obj "(string \<times> jv) list"

datatype error = TypeError | SyntaxError | ApiError string

text \<open>ToBoolean, as used by \<open>!x\<close>, \<open>x || y\<close> and \<open>filter(Boolean)\<close>.\<close>

fun truthy :: "jv \<Rightarrow> bool" where
  "truthy Undefined = False"
| "truthy Null = False"
| "truthy (Bool b) = b"
| "truthy (Num n) = (n \<noteq> Fin 0 \<and> n \<noteq> NaN)"
| "truthy (Str s) = (s \<noteq> [])"
| "truthy (Arr xs) = True"
| "truthy (Obj kvs) = True"

text \<open>
  \<open>v.k\<close> for the property names the planner's answer is read by (\<open>tandas\<close>, \<open>type\<close>,
  \<open>reasoning\<close>, \<open>trackIds\<close>, \<open>cortinaTrackIds\<close>): a TypeError on \<open>null\<close> and
  \<open>undefined\<close>, the member of an object, and \<open>undefined\<close> on every other value, none of
  which has a property of one of these names.
\<close>

fun prop_of :: "jv \<Rightarrow> string \<Rightarrow> error + jv" where
  "prop_of Undefined k = Inl TypeError"
| "prop_of Null k = Inl TypeError"
| "prop_of (Obj kvs) k = Inr (case map_of kvs k of None \<Rightarrow> Undefined | Some v \<Rightarrow> v)"
| "prop_of v k = Inr Undefined"

fun isArray :: "jv \<Rightarrow> bool" where
  "isArray (Arr xs) = True"
| "isArray v = False"

text \<open>\<open>typeof n === 'number'\<close>\<close>

fun is_number :: "jv \<Rightarrow> bool" where
  "is_number (Num n) = True"
| "is_number v = False"

text \<open>Decimal rendering of a natural number, as template literals print one.\<close>

definition digit :: "nat \<Rightarrow> char" where
  "digit d = ''0123456789'' ! d"

fun show_nat :: "nat \<Rightarrow> string" where
  "show_nat n = (if n < 10 then [digit n] else show_nat (n div 10) @ [digit (n mod 10)])"

declare show_nat.simps [simp del]

section \<open>Data model\<close>

datatype style = Tango | Vals | Milonga | Cortina

fun style_name :: "style \<Rightarrow> string" where
  "style_name Tango = ''tango''"
| "style_name Vals = ''vals''"
| "style_name Milonga = ''milonga''"
| "style_name Cortina = ''cortina''"

text \<open>
  A track as \<open>buildLibrary\<close> and \<open>mapCatalogTrack\<close> write it. The style is one of the
  four names \<open>guessStyleFromMetadata\<close> and \<open>inferTrackStyle\<close> return; \<open>None\<close> is a
  track without the field.
\<close>

record track =
  track_id :: string
  sourcePath :: string
  relativePath :: string
  title :: string
  artist :: string
  album :: string
  genre :: string
  year :: "nat option"
  duration :: rat
  style :: "style option"

text \<open>\<open>library.tracks\<close>; the functions below read no other field of the library.\<close>

type_synonym library = "track list"

text \<open>
  A tanda of a playlist. \<open>tanda_type\<close> and \<open>reasoning\<close> are copied from the planner's
  answer by \<open>hydratePlan\<close>, so they are JSON values; an entry of \<open>tracks\<close> is a track
  or \<open>null\<close> (a hole of the array is written as \<open>null\<close> by \<open>JSON.stringify\<close>).
\<close>

record tanda =
  tanda_id :: string
  tanda_type :: jv
  reasoning :: jv
  tracks :: "track option list"

text \<open>The pair \<open>{ tandas, cortinas }\<close> the two planners return; a cortina is a track or \<open>null\<close>.\<close>

record plan =
  tandas :: "tanda list"
  cortinas :: "track option list"

datatype debug_reason = NoApiKeyFound | GenerationFailed error | NoReason

text \<open>
  The part of \<open>agentDebug\<close> the handler decides on. The diagnostic fields copied from the
  planner's response (model, response id, duration, request summary) are left out.
\<close>

record agent_debug =
  enabled :: bool
  reason :: debug_reason
  tandaTypes :: "jv list"
  validation :: "string option"

record playlist = plan +
  pl_id :: string
  pl_name :: string
  prompt :: string
  generationSource :: string
  agentDebug :: agent_debug
  createdAt :: string
  updatedAt :: string

section \<open>Grouping and shuffling\<close>

text \<open>
  \<open>grouped[track.style] ? track.style : 'tango'\<close>, and the loop that pushes every track
  to the bucket of that name, in catalog order.
\<close>

definition bucket :: "track \<Rightarrow> style" where
  "bucket t = (case style t of Some s \<Rightarrow> s | None \<Rightarrow> Tango)"

definition groupByStyle :: "library \<Rightarrow> style \<Rightarrow> track list" where
  "groupByStyle lib = fold (\<lambda>t grouped. grouped(bucket t := grouped (bucket t) @ [t])) lib (\<lambda>s. [])"

text \<open>
  \<open>Math.floor(Math.random() * (i + 1))\<close> is an integer in \<open>0..i\<close>. The source of randomness
  is a sequence of natural numbers, and a draw is the next one reduced modulo \<open>i + 1\<close>.
\<close>

type_synonym rng = "nat \<Rightarrow> nat"

definition swap :: "nat \<Rightarrow> nat \<Rightarrow> 'a list \<Rightarrow> 'a list" where
  "swap i j xs = xs[i := xs ! j, j := xs ! i]"

fun shuffle_from :: "nat \<Rightarrow> rng \<Rightarrow> 'a list \<Rightarrow> 'a list \<times> rng" where
  "shuffle_from 0 r copy = (copy, r)"
| "shuffle_from (Suc i) r copy =
     shuffle_from i (\<lambda>k. r (Suc k)) (swap (Suc i) (r 0 mod (Suc i + 1)) copy)"

definition shuffle :: "rng \<Rightarrow> 'a list \<Rightarrow> 'a list \<times> rng" where
  "shuffle r arr = shuffle_from (length arr - 1) r arr"

section \<open>Fallback planner\<close>

definition pattern :: "(style \<times> nat) list" where
  "pattern = [(Tango, 4), (Tango, 4), (Vals, 3), (Tango, 4), (Tango, 4), (Milonga, 3)]"

definition fallback_reasoning :: string where
  "fallback_reasoning = ''Fallback selection due to unavailable OpenAI plan.''"

text \<open>
  \<open>pattern.map((slot, idx) => ...)\<close>: the set \<open>used\<close> and the randomness are threaded
  through the slots in order.
\<close>

fun fill_slots ::
  "(style \<Rightarrow> track list) \<Rightarrow> nat \<Rightarrow> (style \<times> nat) list \<Rightarrow> string set \<Rightarrow> rng
    \<Rightarrow> tanda list \<times> string set \<times> rng" where
  "fill_slots grouped idx [] used r = ([], used, r)"
| "fill_slots grouped idx (slot # slots) used r =
     (let (shuffled, r1) = shuffle r (grouped (fst slot));
          pool = filter (\<lambda>t. track_id t \<notin> used) shuffled;
          chosen = take (snd slot) pool;
          used1 = used \<union> set (map track_id chosen);
          t = \<lparr>tanda_id = ''tanda-'' @ show_nat (idx + 1),
               tanda_type = Str (style_name (fst slot)),
               reasoning = Str fallback_reasoning,
               tracks = map Some chosen\<rparr>;
          (rest, used2, r2) = fill_slots grouped (idx + 1) slots used1 r1
      in (t # rest, used2, r2))"

definition fallbackPlaylistPlan :: "rng \<Rightarrow> library \<Rightarrow> plan" where
  "fallbackPlaylistPlan r library =
     (let grouped = groupByStyle library;
          (ts, used, r1) = fill_slots grouped 0 pattern {} r;
          (shuffled, r2) =
            shuffle r1 (if grouped Cortina \<noteq> [] then grouped Cortina else grouped Tango);
          cortinaPool = filter (\<lambda>t. track_id t \<notin> used) shuffled
      in \<lparr>tandas = ts,
          cortinas = map (\<lambda>idx. if idx < length cortinaPool then Some (cortinaPool ! idx) else None)
                       [0..<length ts]\<rparr>)"

section \<open>Plan validation\<close>

definition pattern_types :: "string list" where
  "pattern_types = [''tango'', ''tango'', ''vals'', ''tango'', ''tango'', ''milonga'']"

definition pattern_at :: "nat \<Rightarrow> jv" where
  "pattern_at i = (if i < length pattern_types then Str (pattern_types ! i) else Undefined)"

text \<open>
  \<open>plan.tandas.every((t, i) => t.type === pattern[i] && Array.isArray(t.trackIds))\<close>:
  stops at the first entry that fails, and throws on an entry that is \<open>null\<close>.
\<close>

fun every_tanda :: "nat \<Rightarrow> jv list \<Rightarrow> error + bool" where
  "every_tanda i [] = Inr True"
| "every_tanda i (t # ts) =
     (case prop_of t ''type'' of
        Inl e \<Rightarrow> Inl e
      | Inr ty \<Rightarrow>
          if ty = pattern_at i then
            (case prop_of t ''trackIds'' of
               Inl e \<Rightarrow> Inl e
             | Inr ids \<Rightarrow> if isArray ids then every_tanda (i + 1) ts else Inr False)
          else Inr False)"

definition validatePlanShape :: "jv \<Rightarrow> error + bool" where
  "validatePlanShape p =
     (if truthy p then
        (case prop_of p ''tandas'' of
           Inl e \<Rightarrow> Inl e
         | Inr ts \<Rightarrow>
             (case ts of
                Arr xs \<Rightarrow> if length xs = 6 then every_tanda 0 xs else Inr False
              | _ \<Rightarrow> Inr False))
      else Inr False)"

section \<open>Plan hydration\<close>

text \<open>
  \<open>new Map(library.tracks.map((track) => [track.id, track]))\<close>: of two tracks with one
  id the later one is kept. Catalog ids are strings, so \<open>trackMap.get\<close> finds nothing for
  a key that is not a string.
\<close>

definition trackMap :: "library \<Rightarrow> string \<Rightarrow> track option" where
  "trackMap library = map_of (rev (map (\<lambda>t. (track_id t, t)) library))"

fun trackMap_get :: "library \<Rightarrow> jv \<Rightarrow> track option" where
  "trackMap_get library (Str s) = trackMap library s"
| "trackMap_get library v = None"

text \<open>\<open>ids.map((id) => trackMap.get(id)).filter(Boolean)\<close>\<close>

definition resolve :: "library \<Rightarrow> jv list \<Rightarrow> track list" where
  "resolve library ids = List.map_filter (trackMap_get library) ids"

text \<open>
  The receiver of \<open>(x || []).map\<close>: the empty array for a falsy \<open>x\<close>, the array \<open>x\<close>
  itself, and a TypeError for any other truthy value, which has no \<open>map\<close>.
\<close>

definition or_empty :: "jv \<Rightarrow> error + jv list" where
  "or_empty x = (if truthy x then (case x of Arr xs \<Rightarrow> Inr xs | _ \<Rightarrow> Inl TypeError) else Inr [])"

definition patternSizes :: "nat list" where
  "patternSizes = [4, 4, 3, 4, 4, 3]"

text \<open>\<open>xs.slice(0, patternSizes[idx])\<close>; the end is \<open>undefined\<close> past the sixth entry, which keeps all.\<close>

definition slice_size :: "nat \<Rightarrow> 'a list \<Rightarrow> 'a list" where
  "slice_size idx xs = (if idx < length patternSizes then take (patternSizes ! idx) xs else xs)"

definition generic_reasoning :: string where
  "generic_reasoning = ''AI selected this tanda for flow.''"

fun hydrate_tandas :: "library \<Rightarrow> nat \<Rightarrow> jv list \<Rightarrow> error + tanda list" where
  "hydrate_tandas library idx [] = Inr []"
| "hydrate_tandas library idx (t # ts) =
     (case prop_of t ''type'' of
        Inl e \<Rightarrow> Inl e
      | Inr ty \<Rightarrow>
         (case prop_of t ''reasoning'' of
            Inl e \<Rightarrow> Inl e
          | Inr r \<Rightarrow>
             (case prop_of t ''trackIds'' of
                Inl e \<Rightarrow> Inl e
              | Inr x \<Rightarrow>
                 (case or_empty x of
                    Inl e \<Rightarrow> Inl e
                  | Inr ids \<Rightarrow>
                     (case hydrate_tandas library (idx + 1) ts of
                        Inl e \<Rightarrow> Inl e
                      | Inr rest \<Rightarrow>
                          Inr (\<lparr>tanda_id = ''tanda-'' @ show_nat (idx + 1),
                                 tanda_type = ty,
                                 reasoning = (if truthy r then r else Str generic_reasoning),
                                 tracks = map Some (slice_size idx (resolve library ids))\<rparr>
                               # rest))))))"

definition hydratePlan :: "jv \<Rightarrow> library \<Rightarrow> error + plan" where
  "hydratePlan p library =
     (case prop_of p ''tandas'' of
        Inl e \<Rightarrow> Inl e
      | Inr x \<Rightarrow>
         (case x of
            Arr xs \<Rightarrow>
              (case hydrate_tandas library 0 xs of
                 Inl e \<Rightarrow> Inl e
               | Inr ts \<Rightarrow>
                  (case prop_of p ''cortinaTrackIds'' of
                     Inl e \<Rightarrow> Inl e
                   | Inr c \<Rightarrow>
                      (case or_empty c of
                         Inl e \<Rightarrow> Inl e
                       | Inr ids \<Rightarrow>
                           Inr \<lparr>tandas = ts, cortinas = map Some (take 6 (resolve library ids))\<rparr>)))
          | _ \<Rightarrow> Inl TypeError))"

section \<open>Playlist documents and their handlers\<close>

text \<open>
  \<open>normalizePlaylist({ ...base, tandas, cortinas })\<close>. An entry of the arrays may be
  \<open>undefined\<close> (\<open>None\<close>) after a splice: reading \<open>t.tracks\<close> of such a tanda throws,
  and \<open>c || null\<close> turns such a cortina into \<open>null\<close>. A tanda that is there has its
  \<open>tracks\<close> array, which is truthy, so \<open>t.tracks || []\<close> is \<open>t.tracks\<close>.
\<close>

fun normalize_tandas :: "tanda option list \<Rightarrow> error + tanda list" where
  "normalize_tandas [] = Inr []"
| "normalize_tandas (None # ts) = Inl TypeError"
| "normalize_tandas (Some t # ts) =
     (case normalize_tandas ts of Inl e \<Rightarrow> Inl e | Inr rest \<Rightarrow> Inr (t # rest))"

fun or_null :: "track option option \<Rightarrow> track option" where
  "or_null None = None"
| "or_null (Some c) = c"

definition normalizePlaylist ::
  "playlist \<Rightarrow> tanda option list \<Rightarrow> track option option list \<Rightarrow> string \<Rightarrow> error + playlist" where
  "normalizePlaylist base ts cs now =
     (case normalize_tandas ts of
        Inl e \<Rightarrow> Inl e
      | Inr ts' \<Rightarrow> Inr (base\<lparr>tandas := ts', cortinas := map or_null cs, updatedAt := now\<rparr>))"

text \<open>
  The playlists directory: a document per id. A handler returns its response and the
  directory it leaves; an exception no handler catches is \<open>Uncaught\<close>.
\<close>

type_synonym store = "string \<Rightarrow> playlist option"

datatype response = Json nat playlist | Failure nat string | Uncaught error

subsection \<open>Creating a playlist\<close>

text \<open>
  What the world outside does to \<open>createPlanWithAgent\<close>: no API key is configured, the
  call to the service throws, its output text is not JSON, or the text parses to a value.
\<close>

datatype agent_call = NoApiKey | CallFails string | OutputNotJson | Output jv

text \<open>\<open>xs.map((t) => t.type)\<close>\<close>

fun types_of :: "jv list \<Rightarrow> error + jv list" where
  "types_of [] = Inr []"
| "types_of (t # ts) =
     (case prop_of t ''type'' of
        Inl e \<Rightarrow> Inl e
      | Inr ty \<Rightarrow> (case types_of ts of Inl e \<Rightarrow> Inl e | Inr tys \<Rightarrow> Inr (ty # tys)))"

text \<open>
  After \<open>JSON.parse\<close> the function only builds the debug record. There
  \<open>(plan.tandas || []).map((t) => t.type)\<close> throws when \<open>plan\<close> is \<open>null\<close>, when
  \<open>tandas\<close> is truthy and not an array, and on an entry that is \<open>null\<close>;
  \<open>(plan.cortinaTrackIds || []).length\<close> reads a property of a truthy value and cannot
  throw.
\<close>

definition createPlanWithAgent :: "agent_call \<Rightarrow> error + (jv \<times> agent_debug)" where
  "createPlanWithAgent call =
     (case call of
        NoApiKey \<Rightarrow>
          Inr (Null, \<lparr>enabled = False, reason = NoApiKeyFound, tandaTypes = [], validation = None\<rparr>)
      | CallFails m \<Rightarrow> Inl (ApiError m)
      | OutputNotJson \<Rightarrow> Inl SyntaxError
      | Output p \<Rightarrow>
         (case prop_of p ''tandas'' of
            Inl e \<Rightarrow> Inl e
          | Inr x \<Rightarrow>
             (case or_empty x of
                Inl e \<Rightarrow> Inl e
              | Inr xs \<Rightarrow>
                 (case types_of xs of
                    Inl e \<Rightarrow> Inl e
                  | Inr tys \<Rightarrow>
                      Inr (p, \<lparr>enabled = True, reason = NoReason, tandaTypes = tys,
                               validation = None\<rparr>)))))"

text \<open>The fields of the request body the handler reads, as the strings the interface declares.\<close>

record create_request =
  req_name :: string
  req_prompt :: string

text \<open>The readings of the clock the handler takes: \<open>Date.now()\<close>, the locale date, the ISO time.\<close>

record clock =
  millis :: nat
  localeDate :: string
  iso :: string

definition invalid_shape_note :: string where
  "invalid_shape_note = ''Agent response shape was invalid; fallback plan used''"

text \<open>
  The handler of \<open>POST /api/playlists\<close>. Only the call of \<open>createPlanWithAgent\<close> stands
  in its \<open>try\<close>; \<open>validatePlanShape\<close>, \<open>hydratePlan\<close> and \<open>normalizePlaylist\<close> are called
  after it.
\<close>

definition post_playlists ::
  "library \<Rightarrow> create_request \<Rightarrow> agent_call \<Rightarrow> clock \<Rightarrow> rng \<Rightarrow> store \<Rightarrow> response \<times> store" where
  "post_playlists library req call clk r st =
     (if library = [] then (Failure 400 ''Library is empty. Scan library first.'', st)
      else
        let (p, debug) =
              (case createPlanWithAgent call of
                 Inr res \<Rightarrow> res
               | Inl e \<Rightarrow>
                   (Null, \<lparr>enabled = False, reason = GenerationFailed e, tandaTypes = [],
                           validation = None\<rparr>))
        in case (if truthy p then validatePlanShape p else Inr False) of
             Inl e \<Rightarrow> (Uncaught e, st)
           | Inr valid \<Rightarrow>
              let usedFallback = (\<not> valid);
                  debug1 = (if usedFallback \<and> enabled debug
                            then debug\<lparr>validation := Some invalid_shape_note\<rparr> else debug)
              in case (if usedFallback then Inr (fallbackPlaylistPlan r library)
                       else hydratePlan p library) of
                   Inl e \<Rightarrow> (Uncaught e, st)
                 | Inr hydrated \<Rightarrow>
                    let base =
                          \<lparr>tandas = tandas hydrated, cortinas = cortinas hydrated,
                           pl_id = ''playlist-'' @ show_nat (millis clk),
                           pl_name = (if req_name req \<noteq> [] then req_name req
                                      else ''Milonga '' @ localeDate clk),
                           prompt = req_prompt req,
                           generationSource = (if usedFallback then ''fallback'' else ''agent''),
                           agentDebug = debug1,
                           createdAt = iso clk,
                           updatedAt = []\<rparr>
                    in case normalizePlaylist base (map Some (tandas base))
                              (map Some (cortinas base)) (iso clk) of
                         Inl e \<Rightarrow> (Uncaught e, st)
                       | Inr created \<Rightarrow> (Json 201 created, st(pl_id created \<mapsto> created)))"

subsection \<open>Moving a tanda\<close>

text \<open>ToIntegerOrInfinity of a finite number: truncation towards zero.\<close>

definition to_integer :: "rat \<Rightarrow> int" where
  "to_integer q = (if 0 \<le> q then \<lfloor>q\<rfloor> else \<lceil>q\<rceil>)"

text \<open>
  The position \<open>Array.prototype.splice\<close> starts at in an array of \<open>len\<close> entries: NaN is
  0, a negative start counts from the end, and the result is clamped to \<open>0..len\<close>.
\<close>

fun splice_start :: "jsnum \<Rightarrow> nat \<Rightarrow> nat" where
  "splice_start NaN len = 0"
| "splice_start MinusInf len = 0"
| "splice_start PlusInf len = len"
| "splice_start (Fin q) len =
     (if to_integer q < 0 then nat (max (int len + to_integer q) 0)
      else min (nat (to_integer q)) len)"

text \<open>\<open>xs.splice(start, 1)\<close>: the entries removed (one, or none at the end) and the array left.\<close>

definition splice_remove :: "jsnum \<Rightarrow> 'a list \<Rightarrow> 'a list \<times> 'a list" where
  "splice_remove start xs =
     (let k = splice_start start (length xs) in (take 1 (drop k xs), take k xs @ drop (k + 1) xs))"

text \<open>\<open>xs.splice(start, 0, x)\<close>\<close>

definition splice_insert :: "jsnum \<Rightarrow> 'a \<Rightarrow> 'a list \<Rightarrow> 'a list" where
  "splice_insert start x xs =
     (let k = splice_start start (length xs) in take k xs @ x # drop k xs)"

text \<open>\<open>const [x] = removed\<close>: the first entry, or \<open>undefined\<close>.\<close>

fun first_or_undefined :: "'a option list \<Rightarrow> 'a option" where
  "first_or_undefined [] = None"
| "first_or_undefined (x # xs) = x"

text \<open>
  The handler of \<open>POST /api/playlists/:id/move-tanda\<close>; \<open>fromIndex\<close> and \<open>toIndex\<close> are
  whatever the request body holds under these names. The playlist is written to the file
  named by its own \<open>id\<close> field.
\<close>

definition post_move_tanda ::
  "string \<Rightarrow> jv \<Rightarrow> jv \<Rightarrow> string \<Rightarrow> store \<Rightarrow> response \<times> store" where
  "post_move_tanda pid fromIndex toIndex now st =
     (case st pid of
        None \<Rightarrow> (Failure 404 ''Playlist not found'', st)
      | Some p \<Rightarrow>
         (case (fromIndex, toIndex) of
            (Num f, Num t) \<Rightarrow>
              let (removed_t, ts) = splice_remove f (map Some (tandas p));
                  (removed_c, cs) = splice_remove f (map Some (cortinas p));
                  ts1 = splice_insert t (first_or_undefined removed_t) ts;
                  cs1 = splice_insert t (first_or_undefined removed_c) cs
              in (case normalizePlaylist p ts1 cs1 now of
                    Inl e \<Rightarrow> (Uncaught e, st)
                  | Inr updated \<Rightarrow> (Json 200 updated, st(pl_id p \<mapsto> updated)))
          | _ \<Rightarrow> (Failure 400 ''fromIndex and toIndex must be numbers'', st)))"

subsection \<open>Replacing a track\<close>

text \<open>
  The indices of the request are JSON numbers, as the interface declares them. A number
  names an entry of an array when it is a non-negative integer; any other number names
  an ordinary property, which an array of tandas does not have (\<open>undefined\<close>) and which
  \<open>JSON.stringify\<close> does not write for an array of tracks.
\<close>

definition array_index :: "jsnum \<Rightarrow> nat option" where
  "array_index n =
     (case n of
        Fin q \<Rightarrow> if 0 \<le> q \<and> q = of_int \<lfloor>q\<rfloor> then Some (nat \<lfloor>q\<rfloor>) else None
      | _ \<Rightarrow> None)"

text \<open>
  \<open>xs[n] = v\<close>: past the end the array grows, with holes up to the new entry. An integer
  from \<open>2^32 - 1\<close> on is not an array index any more, and sets an ordinary property.
\<close>

definition array_set :: "'a option list \<Rightarrow> jsnum \<Rightarrow> 'a \<Rightarrow> 'a option list" where
  "array_set xs n v =
     (case array_index n of
        None \<Rightarrow> xs
      | Some i \<Rightarrow>
          if i < length xs then xs[i := Some v]
          else if i < 4294967295 then xs @ replicate (i - length xs) None @ [Some v]
          else xs)"

text \<open>
  The handler of \<open>POST /api/playlists/:id/replace-track\<close>. \<open>find\<close> returns the first
  catalog track whose id is strictly equal to \<open>replacementTrackId\<close>; the assignment throws
  when there is no tanda at \<open>tandaIndex\<close>.
\<close>

definition post_replace_track ::
  "string \<Rightarrow> jsnum \<Rightarrow> jsnum \<Rightarrow> jv \<Rightarrow> string \<Rightarrow> library \<Rightarrow> store \<Rightarrow> response \<times> store" where
  "post_replace_track pid tandaIndex trackIndex replacementTrackId now library st =
     (case st pid of
        None \<Rightarrow> (Failure 404 ''Playlist not found'', st)
      | Some p \<Rightarrow>
         (case find (\<lambda>t. Str (track_id t) = replacementTrackId) library of
            None \<Rightarrow> (Failure 400 ''replacementTrackId not found in library'', st)
          | Some replacement \<Rightarrow>
             (case array_index tandaIndex of
                None \<Rightarrow> (Uncaught TypeError, st)
              | Some i \<Rightarrow>
                  if i < length (tandas p) then
                    let t = tandas p ! i;
                        p1 = p\<lparr>tandas :=
                               (tandas p)[i := t\<lparr>tracks := array_set (tracks t) trackIndex replacement\<rparr>]\<rparr>
                    in (case normalizePlaylist p1 (map Some (tandas p1)) (map Some (cortinas p1)) now of
                          Inl e \<Rightarrow> (Uncaught e, st)
                        | Inr updated \<Rightarrow> (Json 200 updated, st(pl_id p \<mapsto> updated)))
                  else (Uncaught TypeError, st))))"

section \<open>Reading a plan, and the spec's notion of a valid raw plan\<close>

text \<open>The member \<open>k\<close> of a JSON value, \<open>undefined\<close> where there is none.\<close>

definition field :: "jv \<Rightarrow> string \<Rightarrow> jv" where
  "field v k =
     (case v of
        Obj kvs \<Rightarrow> (case map_of kvs k of None \<Rightarrow> Undefined | Some w \<Rightarrow> w)
      | _ \<Rightarrow> Undefined)"

text \<open>
  The specification's wording: a raw plan is valid when it has exactly six tanda entries,
  the style field of each entry is the style of the pattern at the same position, and
  each entry carries a sequence of track-ID strings (the field is there and is a
  sequence, possibly empty).
\<close>

fun isString :: "jv \<Rightarrow> bool" where
  "isString (Str s) = True"
| "isString v = False"

definition id_strings :: "jv \<Rightarrow> bool" where
  "id_strings v = (case v of Arr ids \<Rightarrow> list_all isString ids | _ \<Rightarrow> False)"

definition valid_raw_plan :: "jv \<Rightarrow> bool" where
  "valid_raw_plan p =
     (case field p ''tandas'' of
        Arr xs \<Rightarrow>
          length xs = 6 \<and>
          list_all2 (\<lambda>t ty. field t ''type'' = Str ty \<and> id_strings (field t ''trackIds''))
            xs [''tango'', ''tango'', ''vals'', ''tango'', ''tango'', ''milonga'']
      | _ \<Rightarrow> False)"

text \<open>
  The same with the last condition weakened: the \<open>trackIds\<close> member of each entry is a
  sequence, whatever its elements are.
\<close>

definition well_shaped_plan :: "jv \<Rightarrow> bool" where
  "well_shaped_plan p =
     (case field p ''tandas'' of
        Arr xs \<Rightarrow>
          length xs = 6 \<and>
          list_all2 (\<lambda>t ty. field t ''type'' = Str ty \<and> isArray (field t ''trackIds''))
            xs [''tango'', ''tango'', ''vals'', ''tango'', ''tango'', ''milonga'']
      | _ \<Rightarrow> False)"

text \<open>
  A raw plan of the expected shape: entry \<open>i\<close> has the style of the pattern, the reasoning
  \<open>rs ! i\<close> and the track ids \<open>idss ! i\<close>; \<open>c\<close> is its \<open>cortinaTrackIds\<close> member.
\<close>

definition raw_tanda :: "string \<Rightarrow> jv \<Rightarrow> jv list \<Rightarrow> jv" where
  "raw_tanda ty r ids = Obj [(''type'', Str ty), (''reasoning'', r), (''trackIds'', Arr ids)]"

definition shaped_plan :: "jv list list \<Rightarrow> jv \<Rightarrow> jv" where
  "shaped_plan idss c =
     Obj [(''tandas'', Arr (map2 (\<lambda>ty ids. raw_tanda ty (Str ''flow'') ids) pattern_types idss)),
          (''cortinaTrackIds'', c)]"

text \<open>The tracks of a tanda and of a whole plan, \<open>null\<close> entries left out.\<close>

definition tanda_tracks :: "tanda \<Rightarrow> track list" where
  "tanda_tracks t = List.map_filter id (tracks t)"

definition plan_tracks :: "plan \<Rightarrow> track list" where
  "plan_tracks p = concat (map tanda_tracks (tandas p)) @ List.map_filter id (cortinas p)"

section \<open>Example data\<close>

definition mk_track :: "string \<Rightarrow> style \<Rightarrow> track" where
  "mk_track i s =
     \<lparr>track_id = i, sourcePath = ''/music/'' @ i, relativePath = i, title = i,
      artist = ''Unknown Artist'', album = ''Unknown Album'', genre = [], year = None,
      duration = 0, style = Some s\<rparr>"

definition sample_library :: library where
  "sample_library =
     [mk_track ''t1'' Tango, mk_track ''t2'' Tango, mk_track ''v1'' Vals,
      mk_track ''m1'' Milonga, mk_track ''c1'' Cortina, mk_track ''c2'' Cortina]"

text \<open>The tanda entries of a raw plan.\<close>

definition raw_entries :: "jv \<Rightarrow> jv list" where
  "raw_entries p = (case field p ''tandas'' of Arr xs \<Rightarrow> xs | _ \<Rightarrow> [])"

definition sample_tanda :: "nat \<Rightarrow> string \<Rightarrow> track option list \<Rightarrow> tanda" where
  "sample_tanda k ty ts =
     \<lparr>tanda_id = ''tanda-'' @ show_nat k, tanda_type = Str ty,
      reasoning = Str ''AI selected this tanda for flow.'', tracks = ts\<rparr>"

definition sample_playlist :: playlist where
  "sample_playlist =
     \<lparr>tandas = [sample_tanda 1 ''tango'' [Some (mk_track ''t1'' Tango)],
                sample_tanda 2 ''tango'' [Some (mk_track ''t2'' Tango)],
                sample_tanda 3 ''vals'' [Some (mk_track ''v1'' Vals)],
                sample_tanda 4 ''tango'' [],
                sample_tanda 5 ''tango'' [],
                sample_tanda 6 ''milonga'' [Some (mk_track ''m1'' Milonga)]],
      cortinas = [Some (mk_track ''c1'' Cortina), None, Some (mk_track ''c2'' Cortina),
                  None, None, None],
      pl_id = ''playlist-1'', pl_name = ''Milonga'', prompt = [],
      generationSource = ''agent'',
      agentDebug = \<lparr>enabled = True, reason = NoReason, tandaTypes = [], validation = None\<rparr>,
      createdAt = ''2024-01-01T20:00:00.000Z'', updatedAt = ''2024-01-01T20:00:00.000Z''\<rparr>"

definition sample_store :: store where
  "sample_store = Map.empty(''playlist-1'' \<mapsto> sample_playlist)"

text \<open>
  A raw plan as a planner may answer it: the first tanda lists six ids, one of them of no
  track; the first cortina id is of no track either.
\<close>

definition sample_plan :: jv where
  "sample_plan =
     Obj [(''tandas'',
           Arr [raw_tanda ''tango'' (Str ''warm up'')
                  [Str ''t1'', Str ''missing'', Str ''t2'', Str ''t1'', Str ''t2'', Str ''t1''],
                raw_tanda ''tango'' (Str []) [],
                raw_tanda ''vals'' Null [Str ''v1'', Num (Fin 7)],
                raw_tanda ''tango'' (Str ''rhythmic'') [],
                raw_tanda ''tango'' (Str ''dramatic'') [],
                raw_tanda ''milonga'' (Str ''closing'') [Str ''m1'']]),
          (''cortinaTrackIds'',
           Arr [Str ''missing'', Str ''c1'', Str ''c2'', Str ''c3'', Str ''c4'', Str ''c5''])]"

text \<open>A valid candidate was obtained: the planner answered, and the answer has the shape.\<close>

definition valid_candidate :: "agent_call \<Rightarrow> bool" where
  "valid_candidate call =
     (case call of Output p \<Rightarrow> validatePlanShape p = Inr True | _ \<Rightarrow> False)"

definition sample_request :: create_request where
  "sample_request = \<lparr>req_name = ''Friday'', req_prompt = ''golden age''\<rparr>"

definition sample_clock :: clock where
  "sample_clock = \<lparr>millis = 1700000000000, localeDate = ''11/14/2023'',
     iso = ''2023-11-14T22:13:20.000Z''\<rparr>"

text \<open>
  Two answers of the right tanda shape: one without a \<open>cortinaTrackIds\<close> member, one
  where the member is a string.
\<close>

definition plan_without_cortinas :: jv where
  "plan_without_cortinas =
     Obj [(''tandas'',
           Arr [raw_tanda ''tango'' (Str ''warm up'') [Str ''t1'', Str ''t2''],
                raw_tanda ''tango'' (Str ''lyrical'') [],
                raw_tanda ''vals'' (Str ''turning'') [Str ''v1''],
                raw_tanda ''tango'' (Str ''rhythmic'') [],
                raw_tanda ''tango'' (Str ''dramatic'') [],
                raw_tanda ''milonga'' (Str ''closing'') [Str ''m1'']])]"

definition plan_with_string_cortinas :: jv where
  "plan_with_string_cortinas =
     Obj [(''tandas'',
           Arr [raw_tanda ''tango'' (Str ''warm up'') [Str ''t1'', Str ''t2''],
                raw_tanda ''tango'' (Str ''lyrical'') [],
                raw_tanda ''vals'' (Str ''turning'') [Str ''v1''],
                raw_tanda ''tango'' (Str ''rhythmic'') [],
                raw_tanda ''tango'' (Str ''dramatic'') [],
                raw_tanda ''milonga'' (Str ''closing'') [Str ''m1'']]),
          (''cortinaTrackIds'', Str ''c1'')]"

text \<open>The list with its entry \<open>i\<close> taken out and put in again at position \<open>j\<close>.\<close>

definition moved :: "nat \<Rightarrow> nat \<Rightarrow> 'a list \<Rightarrow> 'a list" where
  "moved i j xs =
     (let rest = take i xs @ drop (Suc i) xs in take j rest @ xs ! i # drop j rest)"

text \<open>The sample playlist after its third tanda went to the front, and after its last went second.\<close>

definition sample_third_first :: playlist where
  "sample_third_first =
     sample_playlist
       \<lparr>tandas := [sample_tanda 3 ''vals'' [Some (mk_track ''v1'' Vals)],
                   sample_tanda 1 ''tango'' [Some (mk_track ''t1'' Tango)],
                   sample_tanda 2 ''tango'' [Some (mk_track ''t2'' Tango)],
                   sample_tanda 4 ''tango'' [],
                   sample_tanda 5 ''tango'' [],
                   sample_tanda 6 ''milonga'' [Some (mk_track ''m1'' Milonga)]],
        cortinas := [Some (mk_track ''c2'' Cortina), Some (mk_track ''c1'' Cortina),
                     None, None, None, None],
        updatedAt := ''2024-01-02T21:00:00.000Z''\<rparr>"

definition sample_last_second :: playlist where
  "sample_last_second =
     sample_playlist
       \<lparr>tandas := [sample_tanda 1 ''tango'' [Some (mk_track ''t1'' Tango)],
                   sample_tanda 6 ''milonga'' [Some (mk_track ''m1'' Milonga)],
                   sample_tanda 2 ''tango'' [Some (mk_track ''t2'' Tango)],
                   sample_tanda 3 ''vals'' [Some (mk_track ''v1'' Vals)],
                   sample_tanda 4 ''tango'' [],
                   sample_tanda 5 ''tango'' []],
        cortinas := [Some (mk_track ''c1'' Cortina), None, None,
                     Some (mk_track ''c2'' Cortina), None, None],
        updatedAt := ''2024-01-02T21:00:00.000Z''\<rparr>"

text \<open>The sample playlist after \<open>tracks[1] = t2\<close> on its first tanda, which has one track.\<close>

definition sample_first_grown :: playlist where
  "sample_first_grown =
     sample_playlist
       \<lparr>tandas := [sample_tanda 1 ''tango'' [Some (mk_track ''t1'' Tango), Some (mk_track ''t2'' Tango)],
                   sample_tanda 2 ''tango'' [Some (mk_track ''t2'' Tango)],
                   sample_tanda 3 ''vals'' [Some (mk_track ''v1'' Vals)],
                   sample_tanda 4 ''tango'' [],
                   sample_tanda 5 ''tango'' [],
                   sample_tanda 6 ''milonga'' [Some (mk_track ''m1'' Milonga)]],
        updatedAt := ''2024-01-02T21:00:00.000Z''\<rparr>"

section \<open>Plan validation: the shape check\<close>

lemma prop_of_field:
  "prop_of t k = (if t = Undefined \<or> t = Null then Inl TypeError else Inr (field t k))"
  by (cases t) (auto simp: field_def)

lemma length_pattern_types: "length pattern_types = 6"
  by (simp add: pattern_types_def)

lemma every_tanda_iff:
  "i + length xs = 6 \<Longrightarrow>
   (every_tanda i xs = Inr True) =
     list_all2 (\<lambda>t ty. field t ''type'' = Str ty \<and> isArray (field t ''trackIds''))
       xs (drop i pattern_types)"
proof (induction xs arbitrary: i)
  case Nil
  then show ?case by (simp add: length_pattern_types)
next
  case (Cons t ts)
  then have i: "i < length pattern_types" and s: "Suc i + length ts = 6"
    by (simp_all add: length_pattern_types)
  have d: "drop i pattern_types = (pattern_types ! i) # drop (Suc i) pattern_types"
    using i by (simp add: Cons_nth_drop_Suc)
  have f: "field Undefined ''type'' = Undefined" "field Null ''type'' = Undefined"
    by (simp_all add: field_def)
  show ?case
    using Cons.IH [OF s] i
    by (auto simp: d prop_of_field pattern_at_def f)
qed

lemma validatePlanShape_iff: "(validatePlanShape p = Inr True) = well_shaped_plan p"
proof (cases "truthy p")
  case False
  then have "field p ''tandas'' = Undefined"
    by (cases p) (auto simp: field_def)
  with False show ?thesis
    by (simp add: validatePlanShape_def well_shaped_plan_def)
next
  case True
  then have p: "prop_of p ''tandas'' = Inr (field p ''tandas'')"
    by (cases p) (auto simp: field_def)
  show ?thesis
  proof (cases "field p ''tandas''")
    case (Arr xs)
    show ?thesis
      using every_tanda_iff [of 0 xs]
      by (auto simp: validatePlanShape_def well_shaped_plan_def True p Arr pattern_types_def)
  qed (simp_all add: validatePlanShape_def well_shaped_plan_def True p)
qed

lemma shaped_plan_valid: "length idss = 6 \<Longrightarrow> well_shaped_plan (shaped_plan idss c)"
  by (auto simp: well_shaped_plan_def shaped_plan_def raw_tanda_def field_def pattern_types_def
      length_Suc_conv numeral_eq_Suc)

lemma id_strings_isArray: "id_strings v \<Longrightarrow> isArray v"
  by (cases v) (simp_all add: id_strings_def)

lemma valid_raw_plan_well_shaped: "valid_raw_plan p \<Longrightarrow> well_shaped_plan p"
proof (cases "field p ''tandas''")
  case (Arr xs)
  assume v: "valid_raw_plan p"
  then have l: "length xs = 6"
    and a: "list_all2 (\<lambda>t ty. field t ''type'' = Str ty \<and> id_strings (field t ''trackIds''))
              xs [''tango'', ''tango'', ''vals'', ''tango'', ''tango'', ''milonga'']"
    by (simp_all add: valid_raw_plan_def Arr)
  from a have "list_all2 (\<lambda>t ty. field t ''type'' = Str ty \<and> isArray (field t ''trackIds''))
              xs [''tango'', ''tango'', ''vals'', ''tango'', ''tango'', ''milonga'']"
    by (rule list_all2_mono) (simp add: id_strings_isArray)
  with l show ?thesis
    by (simp add: well_shaped_plan_def Arr)
qed (simp_all add: valid_raw_plan_def)

text \<open>
  Claim C3, as amended. \<open>validatePlanShape\<close> returns true exactly for the raw plans with
  six tanda entries, the style of each equal to the style of the pattern at its position
  (tango, tango, vals, tango, tango, milonga), and a \<open>trackIds\<close> member that is an array.
  The elements of that array are not looked at. So every plan that is valid in the
  specification's sense is accepted, and so is a plan of that shape whatever its six
  lists of track ids hold: ids of no track, values that are not strings, or nothing at
  all.
\<close>

theorem validatePlanShape_true_iff_well_shaped:
  "((validatePlanShape p = Inr True) = well_shaped_plan p) \<and>
   (valid_raw_plan q \<longrightarrow> validatePlanShape q = Inr True) \<and>
   (length idss = 6 \<longrightarrow> validatePlanShape (shaped_plan idss c) = Inr True)"
  using validatePlanShape_iff shaped_plan_valid valid_raw_plan_well_shaped by simp

theorem validatePlanShape_true_iff_well_shaped_witness:
  "well_shaped_plan (shaped_plan [[], [], [], [], [], []] Null) \<and>
   validatePlanShape (shaped_plan [[], [], [], [], [], []] Null) = Inr True \<and>
   valid_raw_plan (shaped_plan [[Str ''t1'', Str ''no such track''], [], [], [], [], []] Null) \<and>
   validatePlanShape (shaped_plan [[Str ''t1'', Str ''no such track''], [], [], [], [], []] Null)
     = Inr True \<and>
   length [[Str ''no such track'', Num (Fin 7)], [], [], [], [], [] :: jv list] = 6 \<and>
   validatePlanShape (shaped_plan [[Str ''no such track'', Num (Fin 7)], [], [], [], [], []] Undefined)
     = Inr True \<and>
   \<not> well_shaped_plan (shaped_plan [[], [], [], [], []] Null) \<and>
   validatePlanShape (shaped_plan [[], [], [], [], []] Null) \<noteq> Inr True"
proof -
  have v: "well_shaped_plan (shaped_plan [[], [], [], [], [], []] Null)"
    by (simp add: well_shaped_plan_def shaped_plan_def raw_tanda_def field_def pattern_types_def)
  have s: "valid_raw_plan (shaped_plan [[Str ''t1'', Str ''no such track''], [], [], [], [], []] Null)"
    by (simp add: valid_raw_plan_def id_strings_def shaped_plan_def raw_tanda_def field_def
        pattern_types_def)
  have n: "\<not> well_shaped_plan (shaped_plan [[], [], [], [], []] Null)"
    by (simp add: well_shaped_plan_def shaped_plan_def raw_tanda_def field_def pattern_types_def)
  have l: "length [[Str ''no such track'', Num (Fin 7)], [], [], [], [], [] :: jv list] = 6"
    by simp
  show ?thesis
    using v s n l
      validatePlanShape_true_iff_well_shaped
        [of "shaped_plan [[], [], [], [], [], []] Null"
            "shaped_plan [[Str ''t1'', Str ''no such track''], [], [], [], [], []] Null"
            "[[Str ''no such track'', Num (Fin 7)], [], [], [], [], []]" Undefined]
      validatePlanShape_true_iff_well_shaped
        [of "shaped_plan [[], [], [], [], []] Null" Null "[]" Null]
    by simp
qed

text \<open>
  The claim as stated makes validity depend on the entries of \<open>trackIds\<close> being track-ID
  strings. \<open>Array.isArray(t.trackIds)\<close> is all the code asks: a plan whose first tanda
  lists the number 7 is accepted, and is not valid in the specification's sense.
\<close>

theorem validatePlanShape_accepts_non_string_id:
  "validatePlanShape (shaped_plan [[Num (Fin 7)], [], [], [], [], []] (Arr [])) = Inr True \<and>
   \<not> valid_raw_plan (shaped_plan [[Num (Fin 7)], [], [], [], [], []] (Arr []))"
proof -
  have a: "validatePlanShape (shaped_plan [[Num (Fin 7)], [], [], [], [], []] (Arr [])) = Inr True"
    by (simp add: validatePlanShape_iff shaped_plan_valid)
  have b: "\<not> valid_raw_plan (shaped_plan [[Num (Fin 7)], [], [], [], [], []] (Arr []))"
    by (simp add: valid_raw_plan_def id_strings_def shaped_plan_def raw_tanda_def field_def
        pattern_types_def)
  show ?thesis using a b by blast
qed

section \<open>The fallback planner\<close>

lemma fold_group:
  "fold (\<lambda>t grouped. grouped(bucket t := grouped (bucket t) @ [t])) lib g s
     = g s @ filter (\<lambda>t. bucket t = s) lib"
  by (induction lib arbitrary: g) auto

lemma groupByStyle_filter: "groupByStyle lib s = filter (\<lambda>t. bucket t = s) lib"
  by (simp add: groupByStyle_def fold_group)

lemma mset_swap_list: "i < length xs \<Longrightarrow> j < length xs \<Longrightarrow> mset (swap i j xs) = mset xs"
  unfolding swap_def by (simp add: mset_swap)

lemma length_swap: "length (swap i j xs) = length xs"
  by (simp add: swap_def)

lemma mset_shuffle_from:
  "i < length xs \<Longrightarrow> mset (fst (shuffle_from i r xs)) = mset xs"
proof (induction i arbitrary: r xs)
  case 0
  then show ?case by simp
next
  case (Suc i)
  have j: "r 0 mod (Suc i + 1) < length xs"
  proof -
    have "r 0 mod (Suc i + 1) < Suc i + 1" by (rule mod_less_divisor) simp
    with Suc.prems show ?thesis by linarith
  qed
  have "mset (swap (Suc i) (r 0 mod (Suc i + 1)) xs) = mset xs"
    using Suc.prems j by (simp add: mset_swap_list)
  moreover have "i < length (swap (Suc i) (r 0 mod (Suc i + 1)) xs)"
    using Suc.prems by (simp add: length_swap)
  ultimately show ?case
    using Suc.IH by simp
qed

lemma mset_shuffle: "mset (fst (shuffle r xs)) = mset xs"
proof (cases xs)
  case Nil
  then show ?thesis by (simp add: shuffle_def)
next
  case (Cons a as)
  then show ?thesis by (simp add: shuffle_def mset_shuffle_from)
qed

lemma map_filter_id_Some: "List.map_filter id (map Some xs) = xs"
  by (induction xs) (simp_all add: List.map_filter_simps)

lemma map_filter_append: "List.map_filter f (xs @ ys) = List.map_filter f xs @ List.map_filter f ys"
  by (simp add: List.map_filter_def)

lemma pool_slots:
  "List.map_filter id (map (\<lambda>idx. if idx < length xs then Some (xs ! idx) else None) [0..<n]) = take n xs"
proof (induction n)
  case 0
  then show ?case by (simp add: List.map_filter_simps)
next
  case (Suc n)
  show ?case
  proof (cases "n < length xs")
    case True
    then show ?thesis
      using Suc by (simp add: map_filter_append List.map_filter_simps take_Suc_conv_app_nth)
  next
    case False
    then show ?thesis
      using Suc by (simp add: map_filter_append List.map_filter_simps)
  qed
qed


lemma shuffle_set: "shuffle r xs = (sh, r1) \<Longrightarrow> set sh = set xs"
  using mset_shuffle [of r xs] by (auto dest: mset_eq_setD)

lemma shuffle_distinct: "shuffle r xs = (sh, r1) \<Longrightarrow> distinct sh = distinct xs"
  using mset_shuffle [of r xs] by (auto dest: mset_eq_imp_distinct_iff)

lemma fill_slots_shape:
  "fill_slots g idx slots used r = (ts, used', r') \<Longrightarrow>
     map tanda_type ts = map (\<lambda>slot. Str (style_name (fst slot))) slots \<and>
     list_all2 (\<lambda>t slot. length (tracks t) \<le> snd slot) ts slots \<and>
     list_all (\<lambda>t. reasoning t = Str fallback_reasoning) ts"
proof (induction slots arbitrary: idx used r ts used' r')
  case Nil
  then show ?case by simp
next
  case (Cons slot slots)
  then show ?case
    by (auto simp: Let_def split: prod.splits)
qed

lemma fill_slots_tracks:
  assumes "fill_slots g idx slots used r = (ts, used', r')"
    and "\<And>s. set (g s) \<subseteq> L" and "inj_on track_id L" and "\<And>s. distinct (g s)"
  shows "distinct (map track_id (concat (map tanda_tracks ts))) \<and>
         set (map track_id (concat (map tanda_tracks ts))) \<inter> used = {} \<and>
         used' = used \<union> set (map track_id (concat (map tanda_tracks ts))) \<and>
         set (concat (map tanda_tracks ts)) \<subseteq> L"
  using assms(1)
proof (induction slots arbitrary: idx used r ts used' r')
  case Nil
  then show ?case by simp
next
  case (Cons slot slots)
  obtain sh r1 where sh: "shuffle r (g (fst slot)) = (sh, r1)"
    by (cases "shuffle r (g (fst slot))")
  define chosen where "chosen = take (snd slot) (filter (\<lambda>t. track_id t \<notin> used) sh)"
  define used1 where "used1 = used \<union> set (map track_id chosen)"
  obtain rest used2 r2 where
    rest: "fill_slots g (idx + 1) slots used1 r1 = (rest, used2, r2)"
    by (cases "fill_slots g (idx + 1) slots used1 r1")
  define t where "t = \<lparr>tanda_id = ''tanda-'' @ show_nat (idx + 1),
     tanda_type = Str (style_name (fst slot)), reasoning = Str fallback_reasoning,
     tracks = map Some chosen\<rparr>"
  have res: "ts = t # rest" "used' = used2"
    using Cons.prems sh rest
    by (simp_all add: Let_def chosen_def used1_def t_def)
  have tt: "tanda_tracks t = chosen"
    by (simp add: tanda_tracks_def t_def map_filter_id_Some)
  have sub: "set chosen \<subseteq> set sh"
    unfolding chosen_def by (meson filter_is_subset order_trans set_take_subset)
  have shL: "set sh \<subseteq> L"
    using shuffle_set [OF sh] assms(2) by simp
  have dsh: "distinct sh"
    using shuffle_distinct [OF sh] assms(4) by simp
  have dch: "distinct chosen"
    unfolding chosen_def using dsh by simp
  have chL: "set chosen \<subseteq> L"
    using sub shL by blast
  have dids: "distinct (map track_id chosen)"
    using dch chL assms(3) by (simp add: distinct_map inj_on_subset)
  have fresh: "set (map track_id chosen) \<inter> used = {}"
  proof -
    have "set chosen \<subseteq> set (filter (\<lambda>t. track_id t \<notin> used) sh)"
      unfolding chosen_def by (rule set_take_subset)
    then show ?thesis by auto
  qed
  note ih = Cons.IH [OF rest]
  let ?R = "map track_id (concat (map tanda_tracks rest))"
  have r1: "distinct ?R" and r2: "set ?R \<inter> used1 = {}"
    and r3: "used2 = used1 \<union> set ?R" and r4: "set (concat (map tanda_tracks rest)) \<subseteq> L"
    using ih by simp_all
  have ids: "map track_id (concat (map tanda_tracks ts)) = map track_id chosen @ ?R"
    by (simp add: res tt)
  have a: "distinct (map track_id (concat (map tanda_tracks ts)))"
    unfolding ids using dids r1 r2 unfolding used1_def by (simp only: distinct_append) blast
  have b: "set (map track_id (concat (map tanda_tracks ts))) \<inter> used = {}"
    unfolding ids using fresh r2 unfolding used1_def by (simp only: set_append) blast
  have c: "used' = used \<union> set (map track_id (concat (map tanda_tracks ts)))"
    unfolding ids using r3 unfolding used1_def res by (simp only: set_append) blast
  have d: "set (concat (map tanda_tracks ts)) \<subseteq> L"
    using chL r4 by (auto simp: res tt)
  show ?case using a b c d by blast
qed

lemma grouped_facts:
  assumes "distinct (map track_id lib)"
  shows "set (groupByStyle lib s) \<subseteq> set lib" "inj_on track_id (set lib)"
        "distinct (groupByStyle lib s)"
  using assms by (auto simp: groupByStyle_filter distinct_map)

lemma fallback_ok:
  assumes "distinct (map track_id lib)"
  shows "map tanda_type (tandas (fallbackPlaylistPlan r lib)) = map Str pattern_types"
    and "list_all2 (\<lambda>t n. length (tracks t) \<le> n) (tandas (fallbackPlaylistPlan r lib)) patternSizes"
    and "list_all (\<lambda>t. reasoning t = Str fallback_reasoning) (tandas (fallbackPlaylistPlan r lib))"
    and "length (cortinas (fallbackPlaylistPlan r lib)) = 6"
    and "distinct (map track_id (plan_tracks (fallbackPlaylistPlan r lib)))"
proof -
  let ?g = "groupByStyle lib"
  obtain ts used r1 where fs: "fill_slots ?g 0 pattern {} r = (ts, used, r1)"
    by (cases "fill_slots ?g 0 pattern {} r")
  let ?src = "if ?g Cortina \<noteq> [] then ?g Cortina else ?g Tango"
  obtain sh r2 where sh: "shuffle r1 ?src = (sh, r2)"
    by (cases "shuffle r1 ?src")
  define pool where "pool = filter (\<lambda>t. track_id t \<notin> used) sh"
  have fb: "fallbackPlaylistPlan r lib =
      \<lparr>tandas = ts, cortinas = map (\<lambda>idx. if idx < length pool then Some (pool ! idx) else None) [0..<length ts]\<rparr>"
    using fs sh by (simp add: fallbackPlaylistPlan_def Let_def pool_def)
  note shape = fill_slots_shape [OF fs]
  have len: "length ts = 6"
    using shape by (auto dest!: list_all2_lengthD simp: pattern_def)
  show "map tanda_type (tandas (fallbackPlaylistPlan r lib)) = map Str pattern_types"
    using shape by (simp add: fb pattern_def pattern_types_def)
  show "list_all2 (\<lambda>t n. length (tracks t) \<le> n) (tandas (fallbackPlaylistPlan r lib)) patternSizes"
  proof -
    have "list_all2 (\<lambda>t slot. length (tracks t) \<le> snd slot) ts pattern"
      using shape by simp
    then have "list_all2 (\<lambda>t n. length (tracks t) \<le> n) ts (map snd pattern)"
      by (simp add: list_all2_map2)
    then show ?thesis by (simp add: fb pattern_def patternSizes_def)
  qed
  show "list_all (\<lambda>t. reasoning t = Str fallback_reasoning) (tandas (fallbackPlaylistPlan r lib))"
    using shape by (simp add: fb)
  show "length (cortinas (fallbackPlaylistPlan r lib)) = 6"
    by (simp add: fb len)
  have tr: "distinct (map track_id (concat (map tanda_tracks ts)))"
      "used = set (map track_id (concat (map tanda_tracks ts)))"
    using fill_slots_tracks [OF fs, of "set lib"] grouped_facts [OF assms]
    by auto
  have dsrc: "distinct ?src" "set ?src \<subseteq> set lib"
    using grouped_facts [OF assms] by auto
  have dsh: "distinct sh" "set sh \<subseteq> set lib"
    using shuffle_distinct [OF sh] shuffle_set [OF sh] dsrc by auto
  have cs: "List.map_filter id (cortinas (fallbackPlaylistPlan r lib)) = take 6 pool"
    unfolding fb by (simp add: pool_slots len)
  have pl: "set (take 6 pool) \<subseteq> set pool"
    by (rule set_take_subset)
  have dpool: "distinct (map track_id (take 6 pool))"
  proof -
    have "distinct (take 6 pool)" by (simp add: pool_def dsh)
    moreover have "set (take 6 pool) \<subseteq> set lib" using pl dsh by (auto simp: pool_def)
    ultimately show ?thesis
      using grouped_facts(2) [OF assms] by (simp add: distinct_map inj_on_subset)
  qed
  have disj: "set (map track_id (take 6 pool)) \<inter> used = {}"
    using pl by (auto simp: pool_def)
  have pt: "map track_id (plan_tracks (fallbackPlaylistPlan r lib)) =
      map track_id (concat (map tanda_tracks ts)) @ map track_id (take 6 pool)"
    unfolding plan_tracks_def cs by (simp add: fb)
  show "distinct (map track_id (plan_tracks (fallbackPlaylistPlan r lib)))"
    unfolding pt using tr(1) dpool disj unfolding tr(2) by (simp only: distinct_append) blast
qed

text \<open>
  Claim C2. For a catalog whose track ids are pairwise distinct, and whatever the random
  draws are, the fallback plan has six tandas of the styles tango, tango, vals, tango,
  tango, milonga in this order, tanda \<open>i\<close> has at most \<open>[4, 4, 3, 4, 4, 3] ! i\<close> tracks,
  there are six cortina slots, no track id occurs twice among the tracks of the tandas
  and the cortinas, and every tanda carries the fixed fallback explanation. The planner
  is a total function of the catalog and the draws: it has no failure.
\<close>

theorem fallbackPlaylistPlan_structure:
  assumes "distinct (map track_id library)"
  shows "map tanda_type (tandas (fallbackPlaylistPlan r library)) =
           [Str ''tango'', Str ''tango'', Str ''vals'', Str ''tango'', Str ''tango'', Str ''milonga''] \<and>
         list_all2 (\<lambda>t n. length (tracks t) \<le> n)
           (tandas (fallbackPlaylistPlan r library)) [4, 4, 3, 4, 4, 3] \<and>
         length (cortinas (fallbackPlaylistPlan r library)) = 6 \<and>
         distinct (map track_id (plan_tracks (fallbackPlaylistPlan r library))) \<and>
         list_all (\<lambda>t. reasoning t = Str ''Fallback selection due to unavailable OpenAI plan.'')
           (tandas (fallbackPlaylistPlan r library))"
  using fallback_ok [OF assms, of r]
  by (simp add: pattern_types_def patternSizes_def fallback_reasoning_def)

theorem fallbackPlaylistPlan_structure_witness:
  "distinct (map track_id sample_library) \<and>
   map tanda_type (tandas (fallbackPlaylistPlan (\<lambda>k. k) sample_library)) =
     [Str ''tango'', Str ''tango'', Str ''vals'', Str ''tango'', Str ''tango'', Str ''milonga''] \<and>
   list_all2 (\<lambda>t n. length (tracks t) \<le> n)
     (tandas (fallbackPlaylistPlan (\<lambda>k. k) sample_library)) [4, 4, 3, 4, 4, 3] \<and>
   length (cortinas (fallbackPlaylistPlan (\<lambda>k. k) sample_library)) = 6 \<and>
   distinct (map track_id (plan_tracks (fallbackPlaylistPlan (\<lambda>k. k) sample_library))) \<and>
   list_all (\<lambda>t. reasoning t = Str ''Fallback selection due to unavailable OpenAI plan.'')
     (tandas (fallbackPlaylistPlan (\<lambda>k. k) sample_library))"
proof -
  have d: "distinct (map track_id sample_library)"
    by (simp add: sample_library_def mk_track_def)
  show ?thesis
    using d fallbackPlaylistPlan_structure [OF d, of "\<lambda>k. k"] by simp
qed

section \<open>Hydrating a raw plan\<close>

lemma trackMap_in_library: "trackMap lib s = Some t \<Longrightarrow> t \<in> set lib \<and> track_id t = s"
  unfolding trackMap_def by (auto dest!: map_of_SomeD)

lemma set_map_filter: "set (List.map_filter f xs) = {y. \<exists>x\<in>set xs. f x = Some y}"
  unfolding List.map_filter_def by force

lemma resolve_in_library: "set (resolve lib ids) \<subseteq> set lib"
proof
  fix t assume "t \<in> set (resolve lib ids)"
  then obtain v where "trackMap_get lib v = Some t"
    by (auto simp: resolve_def set_map_filter)
  then show "t \<in> set lib"
    by (cases v) (auto dest: trackMap_in_library)
qed

lemma slice_size_subset: "set (slice_size idx xs) \<subseteq> set xs"
  by (auto simp: slice_size_def dest: in_set_takeD)

lemma slice_size_length: "idx < 6 \<Longrightarrow> length (slice_size idx xs) \<le> patternSizes ! idx"
  by (simp add: slice_size_def patternSizes_def)

lemma or_empty_Arr: "or_empty (Arr xs) = Inr xs"
  by (simp add: or_empty_def)

lemma or_empty_falsy: "\<not> truthy x \<Longrightarrow> or_empty x = Inr []"
  by (simp add: or_empty_def)

lemma hydrate_tandas_valid:
  "every_tanda i xs = Inr True \<Longrightarrow> i + length xs \<le> 6 \<Longrightarrow>
   \<exists>ts. hydrate_tandas lib i xs = Inr ts \<and> length ts = length xs \<and>
     (\<forall>k<length xs.
        set (tanda_tracks (ts ! k)) \<subseteq> set lib \<and>
        tracks (ts ! k) = map Some (tanda_tracks (ts ! k)) \<and>
        length (tracks (ts ! k)) \<le> patternSizes ! (i + k) \<and>
        tanda_type (ts ! k) = field (xs ! k) ''type'' \<and>
        reasoning (ts ! k) =
          (if truthy (field (xs ! k) ''reasoning'') then field (xs ! k) ''reasoning''
           else Str generic_reasoning))"
proof (induction xs arbitrary: i)
  case Nil
  then show ?case by simp
next
  case (Cons t xs)
  from Cons.prems(1) have nn: "t \<noteq> Undefined" "t \<noteq> Null"
    by (auto simp: prop_of_field split: if_splits)
  from Cons.prems(1) nn obtain ids where
    ids: "field t ''trackIds'' = Arr ids" and rest: "every_tanda (i + 1) xs = Inr True"
    by (cases "field t ''trackIds''") (auto simp: prop_of_field split: if_splits)
  from Cons.prems(2) have b: "(i + 1) + length xs \<le> 6" and i: "i < 6" by simp_all
  from Cons.IH [OF rest b] obtain ts where
    ts: "hydrate_tandas lib (i + 1) xs = Inr ts" "length ts = length xs"
    and ih: "\<forall>k<length xs.
        set (tanda_tracks (ts ! k)) \<subseteq> set lib \<and>
        tracks (ts ! k) = map Some (tanda_tracks (ts ! k)) \<and>
        length (tracks (ts ! k)) \<le> patternSizes ! (i + 1 + k) \<and>
        tanda_type (ts ! k) = field (xs ! k) ''type'' \<and>
        reasoning (ts ! k) =
          (if truthy (field (xs ! k) ''reasoning'') then field (xs ! k) ''reasoning''
           else Str generic_reasoning)"
    by blast
  define t' where "t' = \<lparr>tanda_id = ''tanda-'' @ show_nat (i + 1),
       tanda_type = field t ''type'',
       reasoning = (if truthy (field t ''reasoning'') then field t ''reasoning'' else Str generic_reasoning),
       tracks = map Some (slice_size i (resolve lib ids))\<rparr>"
  have h: "hydrate_tandas lib i (t # xs) = Inr (t' # ts)"
    using nn ids ts(1) by (simp add: prop_of_field or_empty_Arr t'_def)
  have tt: "tanda_tracks t' = slice_size i (resolve lib ids)"
    by (simp add: tanda_tracks_def t'_def map_filter_id_Some)
  have hd: "set (tanda_tracks t') \<subseteq> set lib \<and>
        tracks t' = map Some (tanda_tracks t') \<and>
        length (tracks t') \<le> patternSizes ! i \<and>
        tanda_type t' = field t ''type'' \<and>
        reasoning t' =
          (if truthy (field t ''reasoning'') then field t ''reasoning''
           else Str generic_reasoning)"
    unfolding tt using slice_size_subset [of i "resolve lib ids"] resolve_in_library [of lib ids]
      slice_size_length [OF i, of "resolve lib ids"]
    by (auto simp: t'_def)
  have all: "\<forall>k<length (t # xs).
        set (tanda_tracks ((t' # ts) ! k)) \<subseteq> set lib \<and>
        tracks ((t' # ts) ! k) = map Some (tanda_tracks ((t' # ts) ! k)) \<and>
        length (tracks ((t' # ts) ! k)) \<le> patternSizes ! (i + k) \<and>
        tanda_type ((t' # ts) ! k) = field ((t # xs) ! k) ''type'' \<and>
        reasoning ((t' # ts) ! k) =
          (if truthy (field ((t # xs) ! k) ''reasoning'') then field ((t # xs) ! k) ''reasoning''
           else Str generic_reasoning)"
  proof (intro allI impI)
    fix k assume k: "k < length (t # xs)"
    show "set (tanda_tracks ((t' # ts) ! k)) \<subseteq> set lib \<and>
        tracks ((t' # ts) ! k) = map Some (tanda_tracks ((t' # ts) ! k)) \<and>
        length (tracks ((t' # ts) ! k)) \<le> patternSizes ! (i + k) \<and>
        tanda_type ((t' # ts) ! k) = field ((t # xs) ! k) ''type'' \<and>
        reasoning ((t' # ts) ! k) =
          (if truthy (field ((t # xs) ! k) ''reasoning'') then field ((t # xs) ! k) ''reasoning''
           else Str generic_reasoning)"
    proof (cases k)
      case 0
      show ?thesis unfolding 0 nth_Cons_0 add_0_right using hd by blast
    next
      case (Suc m)
      then have "m < length xs" using k by simp
      with ih have "set (tanda_tracks (ts ! m)) \<subseteq> set lib \<and>
        tracks (ts ! m) = map Some (tanda_tracks (ts ! m)) \<and>
        length (tracks (ts ! m)) \<le> patternSizes ! (i + 1 + m) \<and>
        tanda_type (ts ! m) = field (xs ! m) ''type'' \<and>
        reasoning (ts ! m) =
          (if truthy (field (xs ! m) ''reasoning'') then field (xs ! m) ''reasoning''
           else Str generic_reasoning)" by blast
      moreover have "i + 1 + m = i + Suc m" by simp
      ultimately show ?thesis unfolding Suc nth_Cons_Suc by metis
    qed
  qed
  show ?case
    apply (rule exI [of _ "t' # ts"])
    apply (intro conjI)
      apply (rule h)
     apply (simp add: ts(2))
    apply (rule all)
    done
qed

lemma valid_plan_parts:
  assumes "validatePlanShape p = Inr True"
  shows "truthy p" "field p ''tandas'' = Arr (raw_entries p)" "length (raw_entries p) = 6"
    "every_tanda 0 (raw_entries p) = Inr True" "p \<noteq> Undefined" "p \<noteq> Null"
proof -
  show t: "truthy p" using assms by (auto simp: validatePlanShape_def split: if_splits)
  then show nn: "p \<noteq> Undefined" "p \<noteq> Null" by auto
  from assms t nn obtain xs where xs: "field p ''tandas'' = Arr xs"
    by (cases "field p ''tandas''") (auto simp: validatePlanShape_def prop_of_field)
  then show "field p ''tandas'' = Arr (raw_entries p)" by (simp add: raw_entries_def)
  from assms t nn xs show "length (raw_entries p) = 6" "every_tanda 0 (raw_entries p) = Inr True"
    by (auto simp: validatePlanShape_def prop_of_field raw_entries_def split: if_splits)
qed

lemma hydratePlan_valid:
  assumes "validatePlanShape p = Inr True"
  shows "hydratePlan p lib =
     (case hydrate_tandas lib 0 (raw_entries p) of
        Inl e \<Rightarrow> Inl e
      | Inr ts \<Rightarrow>
         (case or_empty (field p ''cortinaTrackIds'') of
            Inl e \<Rightarrow> Inl e
          | Inr ids \<Rightarrow> Inr \<lparr>tandas = ts, cortinas = map Some (take 6 (resolve lib ids))\<rparr>))"
  using valid_plan_parts [OF assms]
  by (simp add: hydratePlan_def prop_of_field split: sum.splits)

lemma hydrate_tandas_six:
  assumes "validatePlanShape p = Inr True"
  shows "\<exists>ts. hydrate_tandas library 0 (raw_entries p) = Inr ts \<and> length ts = 6 \<and>
     (\<forall>i<6.
        set (tanda_tracks (ts ! i)) \<subseteq> set library \<and>
        tracks (ts ! i) = map Some (tanda_tracks (ts ! i)) \<and>
        length (tracks (ts ! i)) \<le> patternSizes ! i \<and>
        tanda_type (ts ! i) = field (raw_entries p ! i) ''type'' \<and>
        reasoning (ts ! i) =
          (if truthy (field (raw_entries p ! i) ''reasoning'')
           then field (raw_entries p ! i) ''reasoning'' else Str generic_reasoning))"
  using hydrate_tandas_valid [of 0 "raw_entries p" library] valid_plan_parts(3,4) [OF assms]
  by simp

lemma sample_plan_valid: "validatePlanShape sample_plan = Inr True"
  by (simp add: validatePlanShape_def sample_plan_def raw_tanda_def pattern_at_def pattern_types_def)

lemma sample_hydrated:
  "hydratePlan sample_plan sample_library =
     Inr \<lparr>tandas =
            [\<lparr>tanda_id = ''tanda-1'', tanda_type = Str ''tango'', reasoning = Str ''warm up'',
              tracks = [Some (mk_track ''t1'' Tango), Some (mk_track ''t2'' Tango),
                        Some (mk_track ''t1'' Tango), Some (mk_track ''t2'' Tango)]\<rparr>,
             \<lparr>tanda_id = ''tanda-2'', tanda_type = Str ''tango'',
              reasoning = Str ''AI selected this tanda for flow.'', tracks = []\<rparr>,
             \<lparr>tanda_id = ''tanda-3'', tanda_type = Str ''vals'',
              reasoning = Str ''AI selected this tanda for flow.'',
              tracks = [Some (mk_track ''v1'' Vals)]\<rparr>,
             \<lparr>tanda_id = ''tanda-4'', tanda_type = Str ''tango'', reasoning = Str ''rhythmic'',
              tracks = []\<rparr>,
             \<lparr>tanda_id = ''tanda-5'', tanda_type = Str ''tango'', reasoning = Str ''dramatic'',
              tracks = []\<rparr>,
             \<lparr>tanda_id = ''tanda-6'', tanda_type = Str ''milonga'', reasoning = Str ''closing'',
              tracks = [Some (mk_track ''m1'' Milonga)]\<rparr>],
          cortinas = [Some (mk_track ''c1'' Cortina), Some (mk_track ''c2'' Cortina)]\<rparr>"
  by (simp add: hydratePlan_def sample_plan_def raw_tanda_def sample_library_def or_empty_def
      resolve_def List.map_filter_simps trackMap_def slice_size_def patternSizes_def
      generic_reasoning_def show_nat.simps digit_def mk_track_def)

text \<open>
  Claim C4. For a raw plan that passed \<open>validatePlanShape\<close> and any catalog, hydration
  builds six tandas (\<open>hydratePlan\<close> returns exactly these whenever it returns, and it
  returns whenever \<open>cortinaTrackIds\<close> is falsy or an array). Every track of tanda \<open>i\<close>
  is a track of the catalog, so an id that resolves to nothing is dropped and no entry is
  \<open>null\<close>; the tanda has at most \<open>[4, 4, 3, 4, 4, 3] ! i\<close> tracks however many ids the
  plan lists; and its reasoning is the entry's \<open>reasoning\<close> when that is truthy (a
  non-empty text), and the fixed generic sentence when it is absent, \<open>null\<close> or the
  empty text.
\<close>

theorem hydratePlan_tandas_resolved_and_clamped:
  assumes "validatePlanShape p = Inr True"
  shows "\<exists>ts. hydrate_tandas library 0 (raw_entries p) = Inr ts \<and> length ts = 6 \<and>
     (\<forall>h. hydratePlan p library = Inr h \<longrightarrow> tandas h = ts) \<and>
     (\<not> truthy (field p ''cortinaTrackIds'') \<or> isArray (field p ''cortinaTrackIds'')
        \<longrightarrow> (\<exists>cs. hydratePlan p library = Inr \<lparr>tandas = ts, cortinas = cs\<rparr>)) \<and>
     (\<forall>i<6.
        set (tanda_tracks (ts ! i)) \<subseteq> set library \<and>
        tracks (ts ! i) = map Some (tanda_tracks (ts ! i)) \<and>
        length (tracks (ts ! i)) \<le> [4, 4, 3, 4, 4, 3] ! i \<and>
        reasoning (ts ! i) =
          (if truthy (field (raw_entries p ! i) ''reasoning'')
           then field (raw_entries p ! i) ''reasoning''
           else Str ''AI selected this tanda for flow.''))"
proof -
  from hydrate_tandas_six [OF assms, of library] obtain ts where
    ts: "hydrate_tandas library 0 (raw_entries p) = Inr ts" "length ts = 6"
    and props: "\<forall>i<6.
        set (tanda_tracks (ts ! i)) \<subseteq> set library \<and>
        tracks (ts ! i) = map Some (tanda_tracks (ts ! i)) \<and>
        length (tracks (ts ! i)) \<le> patternSizes ! i \<and>
        tanda_type (ts ! i) = field (raw_entries p ! i) ''type'' \<and>
        reasoning (ts ! i) =
          (if truthy (field (raw_entries p ! i) ''reasoning'')
           then field (raw_entries p ! i) ''reasoning'' else Str generic_reasoning)"
    by blast
  have h: "hydratePlan p library =
      (case or_empty (field p ''cortinaTrackIds'') of
         Inl e \<Rightarrow> Inl e
       | Inr ids \<Rightarrow> Inr \<lparr>tandas = ts, cortinas = map Some (take 6 (resolve library ids))\<rparr>)"
    by (simp add: hydratePlan_valid [OF assms] ts(1))
  have a: "\<forall>h. hydratePlan p library = Inr h \<longrightarrow> tandas h = ts"
    unfolding h by (auto split: sum.splits)
  have b: "\<not> truthy (field p ''cortinaTrackIds'') \<or> isArray (field p ''cortinaTrackIds'')
        \<longrightarrow> (\<exists>cs. hydratePlan p library = Inr \<lparr>tandas = ts, cortinas = cs\<rparr>)"
    unfolding h by (cases "field p ''cortinaTrackIds''") (auto simp: or_empty_def)
  have c: "\<forall>i<6.
        set (tanda_tracks (ts ! i)) \<subseteq> set library \<and>
        tracks (ts ! i) = map Some (tanda_tracks (ts ! i)) \<and>
        length (tracks (ts ! i)) \<le> [4, 4, 3, 4, 4, 3] ! i \<and>
        reasoning (ts ! i) =
          (if truthy (field (raw_entries p ! i) ''reasoning'')
           then field (raw_entries p ! i) ''reasoning''
           else Str ''AI selected this tanda for flow.'')"
    using props unfolding patternSizes_def generic_reasoning_def by blast
  show ?thesis
    apply (rule exI [of _ ts])
    apply (intro conjI)
        apply (rule ts(1))
       apply (rule ts(2))
      apply (rule a)
     apply (rule b)
    apply (rule c)
    done
qed

theorem hydratePlan_tandas_resolved_and_clamped_witness:
  "validatePlanShape sample_plan = Inr True \<and>
   (\<exists>ts. hydrate_tandas sample_library 0 (raw_entries sample_plan) = Inr ts \<and> length ts = 6 \<and>
     (\<forall>h. hydratePlan sample_plan sample_library = Inr h \<longrightarrow> tandas h = ts) \<and>
     (\<not> truthy (field sample_plan ''cortinaTrackIds'') \<or> isArray (field sample_plan ''cortinaTrackIds'')
        \<longrightarrow> (\<exists>cs. hydratePlan sample_plan sample_library = Inr \<lparr>tandas = ts, cortinas = cs\<rparr>)) \<and>
     (\<forall>i<6.
        set (tanda_tracks (ts ! i)) \<subseteq> set sample_library \<and>
        tracks (ts ! i) = map Some (tanda_tracks (ts ! i)) \<and>
        length (tracks (ts ! i)) \<le> [4, 4, 3, 4, 4, 3] ! i \<and>
        reasoning (ts ! i) =
          (if truthy (field (raw_entries sample_plan ! i) ''reasoning'')
           then field (raw_entries sample_plan ! i) ''reasoning''
           else Str ''AI selected this tanda for flow.''))) \<and>
   isArray (field sample_plan ''cortinaTrackIds'') \<and>
   map_sum id (\<lambda>h. map (\<lambda>t. length (tracks t)) (tandas h))
     (hydratePlan sample_plan sample_library) = Inr [4, 0, 1, 0, 0, 1]"
proof -
  have c: "isArray (field sample_plan ''cortinaTrackIds'')"
    by (simp add: sample_plan_def field_def)
  have l: "map_sum id (\<lambda>h. map (\<lambda>t. length (tracks t)) (tandas h))
     (hydratePlan sample_plan sample_library) = Inr [4, 0, 1, 0, 0, 1]"
    by (simp add: sample_hydrated)
  show ?thesis
    using sample_plan_valid c l
      hydratePlan_tandas_resolved_and_clamped [OF sample_plan_valid, of sample_library]
    by blast
qed

text \<open>
  Claim C5 (the code departs from it). The cortina ids are resolved like track ids:
  \<open>filter(Boolean)\<close> drops an id that resolves to nothing, so the cortinas after it move
  one position forward and fewer than six slots are returned. Here the plan names six
  cortinas, the first of no track: the result has two entries, \<open>c1\<close> at position 0 and
  \<open>c2\<close> at position 1, where the claim puts \<open>null\<close> at 0, \<open>c1\<close> at 1 and \<open>c2\<close> at 2.
\<close>

theorem hydratePlan_drops_unresolved_cortina_and_shifts:
  "validatePlanShape sample_plan = Inr True \<and>
   field sample_plan ''cortinaTrackIds'' =
     Arr [Str ''missing'', Str ''c1'', Str ''c2'', Str ''c3'', Str ''c4'', Str ''c5''] \<and>
   map_sum id cortinas (hydratePlan sample_plan sample_library) =
     Inr [Some (mk_track ''c1'' Cortina), Some (mk_track ''c2'' Cortina)]"
  by (simp add: sample_plan_valid sample_hydrated) (simp add: sample_plan_def field_def)

section \<open>Creating a playlist\<close>

lemma normalize_tandas_Some: "normalize_tandas (map Some ts) = Inr ts"
  by (induction ts) simp_all

lemma or_null_Some: "map or_null (map Some cs) = cs" "map (or_null \<circ> Some) cs = cs"
  by (induction cs) simp_all

lemma normalizePlaylist_Some:
  "normalizePlaylist base (map Some ts) (map Some cs) now =
     Inr (base\<lparr>tandas := ts, cortinas := cs, updatedAt := now\<rparr>)"
  by (simp add: normalizePlaylist_def normalize_tandas_Some or_null_Some)

lemma types_of_valid: "every_tanda i xs = Inr True \<Longrightarrow> \<exists>tys. types_of xs = Inr tys"
proof (induction xs arbitrary: i)
  case Nil
  then show ?case by simp
next
  case (Cons t xs)
  from Cons.prems have nn: "t \<noteq> Undefined" "t \<noteq> Null"
    by (auto simp: prop_of_field split: if_splits)
  from Cons.prems nn have "every_tanda (i + 1) xs = Inr True"
    by (auto simp: prop_of_field split: if_splits)
  from Cons.IH [OF this] obtain tys where "types_of xs = Inr tys" by blast
  then show ?case using nn by (simp add: prop_of_field)
qed

lemma every_tanda_total: "types_of xs = Inr tys \<Longrightarrow> \<exists>b. every_tanda i xs = Inr b"
proof (induction xs arbitrary: i tys)
  case Nil
  then show ?case by auto
next
  case (Cons t xs)
  from Cons.prems have nn: "t \<noteq> Undefined" "t \<noteq> Null"
    by (auto simp: prop_of_field split: if_splits)
  from Cons.prems nn obtain tys' where "types_of xs = Inr tys'"
    by (auto simp: prop_of_field split: sum.splits)
  from Cons.IH [OF this, of "i + 1"] obtain b where "every_tanda (i + 1) xs = Inr b" by blast
  then show ?case using nn by (auto simp: prop_of_field)
qed

lemma createPlanWithAgent_valid:
  assumes "validatePlanShape p = Inr True"
  shows "\<exists>tys. createPlanWithAgent (Output p) =
     Inr (p, \<lparr>enabled = True, reason = NoReason, tandaTypes = tys, validation = None\<rparr>)"
proof -
  note v = valid_plan_parts [OF assms]
  from types_of_valid [OF v(4)] obtain tys where "types_of (raw_entries p) = Inr tys" by blast
  then show ?thesis
    using v by (simp add: createPlanWithAgent_def prop_of_field or_empty_def)
qed

lemma createPlanWithAgent_validates:
  assumes "createPlanWithAgent call = Inr (p, d)"
  shows "\<exists>b. (if truthy p then validatePlanShape p else Inr False) = Inr b"
proof (cases "truthy p")
  case False
  then show ?thesis by auto
next
  case True
  then have nn: "p \<noteq> Undefined" "p \<noteq> Null" by auto
  from assms True obtain q where call: "call = Output q"
    by (cases call) (auto simp: createPlanWithAgent_def)
  from assms have pq: "q = p"
    unfolding call by (auto simp: createPlanWithAgent_def split: sum.splits)
  show ?thesis
  proof (cases "field p ''tandas''")
    case (Arr xs)
    from assms obtain tys where "types_of xs = Inr tys"
      unfolding call pq using nn Arr
      by (auto simp: createPlanWithAgent_def prop_of_field or_empty_def split: sum.splits)
    from every_tanda_total [OF this, of 0] obtain b where "every_tanda 0 xs = Inr b" by blast
    then show ?thesis
      using True nn Arr by (auto simp: validatePlanShape_def prop_of_field)
  qed (use True nn in \<open>auto simp: validatePlanShape_def prop_of_field\<close>)
qed

lemma createPlanWithAgent_plan:
  assumes "createPlanWithAgent call = Inr (p, d)" and "truthy p"
  shows "call = Output p"
  using assms by (cases call) (auto simp: createPlanWithAgent_def split: sum.splits)

lemma length_fallback_tandas: "length (tandas (fallbackPlaylistPlan r library)) = 6"
proof -
  obtain ts used r1 where fs: "fill_slots (groupByStyle library) 0 pattern {} r = (ts, used, r1)"
    by (cases "fill_slots (groupByStyle library) 0 pattern {} r")
  have "length ts = 6"
    using fill_slots_shape [OF fs] by (auto dest!: list_all2_lengthD simp: pattern_def)
  then show ?thesis
    using fs by (simp add: fallbackPlaylistPlan_def Let_def split: prod.splits)
qed

text \<open>Without a valid candidate: the fallback plan, tagged as such.\<close>

lemma post_playlists_fallback:
  assumes "library \<noteq> []" and "\<not> valid_candidate call"
  shows "\<exists>created.
     post_playlists library req call clk r st = (Json 201 created, st(pl_id created \<mapsto> created)) \<and>
     tandas created = tandas (fallbackPlaylistPlan r library) \<and>
     cortinas created = cortinas (fallbackPlaylistPlan r library) \<and>
     length (tandas created) = 6 \<and>
     generationSource created = ''fallback''"
proof -
  obtain p debug where pd:
    "(case createPlanWithAgent call of
        Inr res \<Rightarrow> res
      | Inl e \<Rightarrow> (Null, \<lparr>enabled = False, reason = GenerationFailed e, tandaTypes = [],
                          validation = None\<rparr>)) = (p, debug)"
    by (cases "case createPlanWithAgent call of
        Inr res \<Rightarrow> res
      | Inl e \<Rightarrow> (Null, \<lparr>enabled = False, reason = GenerationFailed e, tandaTypes = [],
                          validation = None\<rparr>)")
  have v: "(if truthy p then validatePlanShape p else Inr False) = Inr False"
  proof (cases "createPlanWithAgent call")
    case (Inl e)
    with pd show ?thesis by auto
  next
    case (Inr res)
    with pd have c: "createPlanWithAgent call = Inr (p, debug)" by simp
    from createPlanWithAgent_validates [OF c] obtain b where
      b: "(if truthy p then validatePlanShape p else Inr False) = Inr b" by blast
    have "\<not> b"
    proof
      assume "b"
      with b have t: "truthy p" and vp: "validatePlanShape p = Inr True"
        by (auto split: if_splits)
      from createPlanWithAgent_plan [OF c t] vp assms(2) show False
        by (simp add: valid_candidate_def)
    qed
    with b show ?thesis by simp
  qed
  show ?thesis
    using assms(1) pd v
    by (simp add: post_playlists_def Let_def normalizePlaylist_Some length_fallback_tandas)
qed

text \<open>With a valid candidate: the hydrated plan, tagged as the agent's, when hydration returns.\<close>

lemma post_playlists_agent:
  assumes "library \<noteq> []" and "validatePlanShape p = Inr True"
    and "hydratePlan p library = Inr h"
  shows "\<exists>created.
     post_playlists library req (Output p) clk r st = (Json 201 created, st(pl_id created \<mapsto> created)) \<and>
     tandas created = tandas h \<and> cortinas created = cortinas h \<and>
     generationSource created = ''agent''"
proof -
  from createPlanWithAgent_valid [OF assms(2)] obtain tys where
    c: "createPlanWithAgent (Output p) =
       Inr (p, \<lparr>enabled = True, reason = NoReason, tandaTypes = tys, validation = None\<rparr>)"
    by blast
  show ?thesis
    using assms valid_plan_parts(1) [OF assms(2)]
    by (simp add: post_playlists_def c Let_def normalizePlaylist_Some)
qed

lemma post_playlists_agent_uncaught:
  assumes "library \<noteq> []" and "validatePlanShape p = Inr True"
    and "hydratePlan p library = Inl e"
  shows "post_playlists library req (Output p) clk r st = (Uncaught e, st)"
proof -
  from createPlanWithAgent_valid [OF assms(2)] obtain tys where
    c: "createPlanWithAgent (Output p) =
       Inr (p, \<lparr>enabled = True, reason = NoReason, tandaTypes = tys, validation = None\<rparr>)"
    by blast
  show ?thesis
    using assms valid_plan_parts(1) [OF assms(2)]
    by (simp add: post_playlists_def c Let_def)
qed

lemma plan_without_cortinas_valid: "validatePlanShape plan_without_cortinas = Inr True"
  by (simp add: validatePlanShape_def plan_without_cortinas_def raw_tanda_def pattern_at_def
      pattern_types_def)

lemma plan_with_string_cortinas_valid: "validatePlanShape plan_with_string_cortinas = Inr True"
  by (simp add: validatePlanShape_def plan_with_string_cortinas_def raw_tanda_def pattern_at_def
      pattern_types_def)

lemma hydratePlan_non_array_cortinas:
  assumes "validatePlanShape p = Inr True"
    and "truthy (field p ''cortinaTrackIds'')" and "\<not> isArray (field p ''cortinaTrackIds'')"
  shows "hydratePlan p library = Inl TypeError"
proof -
  from hydrate_tandas_six [OF assms(1), of library] obtain ts where
    "hydrate_tandas library 0 (raw_entries p) = Inr ts" by blast
  moreover have "or_empty (field p ''cortinaTrackIds'') = Inl TypeError"
    using assms(2,3) by (cases "field p ''cortinaTrackIds''") (simp_all add: or_empty_def)
  ultimately show ?thesis
    by (simp add: hydratePlan_valid [OF assms(1)])
qed

lemma hydratePlan_falsy_cortinas:
  assumes "validatePlanShape p = Inr True" and "\<not> truthy (field p ''cortinaTrackIds'')"
  shows "\<exists>ts. hydratePlan p library = Inr \<lparr>tandas = ts, cortinas = []\<rparr> \<and> length ts = 6"
proof -
  from hydrate_tandas_six [OF assms(1), of library] obtain ts where
    "hydrate_tandas library 0 (raw_entries p) = Inr ts" "length ts = 6" by blast
  then show ?thesis
    using assms(2)
    by (simp add: hydratePlan_valid [OF assms(1)] or_empty_def resolve_def List.map_filter_simps)
qed

text \<open>
  \<open>validatePlanShape\<close> never reads \<open>cortinaTrackIds\<close>: a plan with six well-shaped tanda
  entries is accepted whatever that member is. Hydrating a validated plan whose
  \<open>cortinaTrackIds\<close> is absent, \<open>null\<close> or another falsy value gives six tandas and an
  empty cortina sequence, and creating a playlist from such an answer succeeds: the
  playlist is tagged \<open>agent\<close> and has no cortina slot.
\<close>

lemma validation_ignores_cortinas_and_missing_ids_give_none:
  "(length idss = 6 \<longrightarrow> validatePlanShape (shaped_plan idss c) = Inr True) \<and>
   (validatePlanShape p = Inr True \<and> \<not> truthy (field p ''cortinaTrackIds'') \<longrightarrow>
      (\<exists>ts. hydratePlan p library = Inr \<lparr>tandas = ts, cortinas = []\<rparr> \<and> length ts = 6) \<and>
      (library \<noteq> [] \<longrightarrow>
         (\<exists>created.
            post_playlists library req (Output p) clk r st =
              (Json 201 created, st(pl_id created \<mapsto> created)) \<and>
            generationSource created = ''agent'' \<and>
            length (tandas created) = 6 \<and> cortinas created = [])))"
proof (intro conjI impI)
  assume "length idss = 6"
  then show "validatePlanShape (shaped_plan idss c) = Inr True"
    using shaped_plan_valid validatePlanShape_iff by blast
next
  assume a: "validatePlanShape p = Inr True \<and> \<not> truthy (field p ''cortinaTrackIds'')"
  then show "\<exists>ts. hydratePlan p library = Inr \<lparr>tandas = ts, cortinas = []\<rparr> \<and> length ts = 6"
    using hydratePlan_falsy_cortinas by blast
next
  assume a: "validatePlanShape p = Inr True \<and> \<not> truthy (field p ''cortinaTrackIds'')"
    and l: "library \<noteq> []"
  from a hydratePlan_falsy_cortinas [of p library] obtain ts where
    h: "hydratePlan p library = Inr \<lparr>tandas = ts, cortinas = []\<rparr>" and n: "length ts = 6"
    by blast
  from post_playlists_agent [OF l _ h, of req clk r st] a obtain created where
    "post_playlists library req (Output p) clk r st =
       (Json 201 created, st(pl_id created \<mapsto> created))"
    "tandas created = ts" "cortinas created = []" "generationSource created = ''agent''"
    by auto
  with n show "\<exists>created.
            post_playlists library req (Output p) clk r st =
              (Json 201 created, st(pl_id created \<mapsto> created)) \<and>
            generationSource created = ''agent'' \<and>
            length (tandas created) = 6 \<and> cortinas created = []"
    by blast
qed

text \<open>
  Claim C10 (the code departs from it). The claim asks for an empty cortina sequence
  rather than an error also when \<open>cortinaTrackIds\<close> is there and is not a sequence. The
  default in \<open>(plan.cortinaTrackIds || [])\<close> covers falsy values only
  (\<open>validation_ignores_cortinas_and_missing_ids_give_none\<close>). For a string the shape
  check still passes, as the claim says, and \<open>hydratePlan\<close> throws a TypeError: a string
  has no \<open>map\<close>. The same holds for every truthy value that is not an array
  (\<open>hydratePlan_non_array_cortinas\<close>).
\<close>

theorem hydratePlan_throws_on_string_cortinas:
  "validatePlanShape plan_with_string_cortinas = Inr True \<and>
   \<not> isArray (field plan_with_string_cortinas ''cortinaTrackIds'') \<and>
   hydratePlan plan_with_string_cortinas sample_library = Inl TypeError"
proof -
  have t: "truthy (field plan_with_string_cortinas ''cortinaTrackIds'')"
    and a: "\<not> isArray (field plan_with_string_cortinas ''cortinaTrackIds'')"
    by (simp_all add: plan_with_string_cortinas_def field_def)
  show ?thesis
    using plan_with_string_cortinas_valid a
      hydratePlan_non_array_cortinas [OF plan_with_string_cortinas_valid t a]
    by simp
qed

text \<open>
  Claim C1 (the code departs from it). Without a valid candidate the handler always
  answers with the fallback playlist (\<open>post_playlists_fallback\<close>), and a valid candidate
  that hydrates gives a playlist tagged \<open>agent\<close> (\<open>post_playlists_agent\<close>). But the call
  of \<open>hydratePlan\<close> stands outside the handler's \<open>try\<close>, and the shape check does not
  look at \<open>cortinaTrackIds\<close>: an answer with well-shaped tandas and a string there passes
  the check, \<open>hydratePlan\<close> throws, and the exception leaves the handler. No playlist is
  returned and none is stored.
\<close>

theorem post_playlists_uncaught_on_string_cortinas:
  "validatePlanShape plan_with_string_cortinas = Inr True \<and>
   post_playlists sample_library req (Output plan_with_string_cortinas) clk r st =
     (Uncaught TypeError, st)"
proof -
  have t: "truthy (field plan_with_string_cortinas ''cortinaTrackIds'')"
    and a: "\<not> isArray (field plan_with_string_cortinas ''cortinaTrackIds'')"
    by (simp_all add: plan_with_string_cortinas_def field_def)
  have n: "sample_library \<noteq> []"
    by (simp add: sample_library_def)
  show ?thesis
    using plan_with_string_cortinas_valid
      post_playlists_agent_uncaught [OF n plan_with_string_cortinas_valid
        hydratePlan_non_array_cortinas [OF plan_with_string_cortinas_valid t a]]
    by simp
qed

section \<open>Moving a tanda\<close>

lemma to_integer_of_nat: "to_integer (of_nat i) = int i"
  by (simp add: to_integer_def)

lemma splice_start_of_nat: "splice_start (Fin (of_nat i)) len = min i len"
  by (simp add: to_integer_of_nat)

lemma splice_remove_at:
  "i < length xs \<Longrightarrow>
   splice_remove (Fin (of_nat i)) xs = ([xs ! i], take i xs @ drop (Suc i) xs)"
  by (simp add: splice_remove_def to_integer_of_nat Let_def Cons_nth_drop_Suc [symmetric])

lemma splice_insert_at:
  "j \<le> length xs \<Longrightarrow> splice_insert (Fin (of_nat j)) x xs = take j xs @ x # drop j xs"
  by (simp add: splice_insert_def to_integer_of_nat Let_def)

lemma moved_map: "i < length xs \<Longrightarrow> moved i j (map f xs) = map f (moved i j xs)"
  by (simp add: moved_def Let_def take_map drop_map)

lemma length_moved: "i < length xs \<Longrightarrow> length (moved i j xs) = length xs"
  by (auto simp: moved_def Let_def)

lemma nth_moved: "i < length xs \<Longrightarrow> j < length xs \<Longrightarrow> moved i j xs ! j = xs ! i"
proof -
  assume i: "i < length xs" and j: "j < length xs"
  let ?rest = "take i xs @ drop (Suc i) xs"
  have "length (take j ?rest) = j"
    using i j by simp
  then have "(take j ?rest @ xs ! i # drop j ?rest) ! j = xs ! i"
    by (metis nth_append_length)
  then show ?thesis
    by (simp add: moved_def Let_def)
qed

lemma mset_moved: "i < length xs \<Longrightarrow> mset (moved i j xs) = mset xs"
proof -
  assume i: "i < length xs"
  let ?rest = "take i xs @ drop (Suc i) xs"
  have "mset (moved i j xs) = mset (take j ?rest @ drop j ?rest) + {#xs ! i#}"
    by (simp add: moved_def Let_def)
  also have "\<dots> = mset ?rest + {#xs ! i#}"
    by (simp only: append_take_drop_id)
  also have "\<dots> = mset (take i xs @ xs ! i # drop (Suc i) xs)"
    by simp
  also have "\<dots> = mset xs"
    using i by (simp only: id_take_nth_drop [symmetric])
  finally show ?thesis .
qed

lemma moved_same: "i < length xs \<Longrightarrow> moved i i xs = xs"
proof -
  assume i: "i < length xs"
  have "moved i i xs = take i xs @ xs ! i # drop (Suc i) xs"
    using i by (simp add: moved_def Let_def)
  then show ?thesis
    using i by (simp only: id_take_nth_drop [symmetric])
qed

lemma zip_moved:
  assumes "length xs = length ys" and "i < length xs"
  shows "zip (moved i j xs) (moved i j ys) = moved i j (zip xs ys)"
proof -
  let ?rx = "take i xs @ drop (Suc i) xs" and ?ry = "take i ys @ drop (Suc i) ys"
  have r: "zip ?rx ?ry = take i (zip xs ys) @ drop (Suc i) (zip xs ys)"
    using assms by (simp add: take_zip drop_zip)
  have l: "length ?rx = length ?ry"
    using assms by simp
  have "zip (take j ?rx @ xs ! i # drop j ?rx) (take j ?ry @ ys ! i # drop j ?ry)
      = zip (take j ?rx) (take j ?ry) @ (xs ! i, ys ! i) # zip (drop j ?rx) (drop j ?ry)"
  proof -
    have "length (take j ?rx) = length (take j ?ry)"
      using l by (simp only: length_take)
    then show ?thesis
      by (simp only: zip_append zip_Cons_Cons)
  qed
  also have "\<dots> = take j (zip ?rx ?ry) @ zip xs ys ! i # drop j (zip ?rx ?ry)"
    using assms by (simp add: take_zip drop_zip)
  finally show ?thesis
    unfolding moved_def Let_def r .
qed

lemma post_move_tanda_in_range:
  assumes "st pid = Some p" and "length (cortinas p) = length (tandas p)"
    and "i < length (tandas p)" and "j < length (tandas p)"
  shows "post_move_tanda pid (Num (Fin (of_nat i))) (Num (Fin (of_nat j))) now st =
     (Json 200 (p\<lparr>tandas := moved i j (tandas p), cortinas := moved i j (cortinas p),
                  updatedAt := now\<rparr>),
      st(pl_id p \<mapsto> p\<lparr>tandas := moved i j (tandas p), cortinas := moved i j (cortinas p),
                         updatedAt := now\<rparr>))"
proof -
  let ?ts = "map Some (tandas p)" and ?cs = "map Some (cortinas p)"
  have rt: "splice_remove (Fin (of_nat i)) ?ts = ([?ts ! i], take i ?ts @ drop (Suc i) ?ts)"
    using assms(3) by (simp add: splice_remove_at)
  have rc: "splice_remove (Fin (of_nat i)) ?cs = ([?cs ! i], take i ?cs @ drop (Suc i) ?cs)"
    using assms(2,3) by (simp add: splice_remove_at)
  have jt: "j \<le> length (take i ?ts @ drop (Suc i) ?ts)"
    using assms(3,4) by simp
  have jc: "j \<le> length (take i ?cs @ drop (Suc i) ?cs)"
    using assms(2,3,4) by simp
  have it: "splice_insert (Fin (of_nat j)) (?ts ! i) (take i ?ts @ drop (Suc i) ?ts) = moved i j ?ts"
    unfolding splice_insert_at [OF jt] by (simp add: moved_def Let_def)
  have ic: "splice_insert (Fin (of_nat j)) (?cs ! i) (take i ?cs @ drop (Suc i) ?cs) = moved i j ?cs"
    unfolding splice_insert_at [OF jc] by (simp add: moved_def Let_def)
  have mt: "moved i j ?ts = map Some (moved i j (tandas p))"
    using assms(3) by (simp add: moved_map)
  have mc: "moved i j ?cs = map Some (moved i j (cortinas p))"
    using assms(2,3) by (simp add: moved_map)
  show ?thesis
    unfolding post_move_tanda_def
    by (simp add: assms(1) rt rc it ic mt mc normalizePlaylist_Some del: map_map)
qed

lemma sample_store_lookup: "sample_store ''playlist-1'' = Some sample_playlist"
  by (simp add: sample_store_def)

lemma to_integer_examples: "to_integer (5 / 2) = 2" "to_integer (- 1) = - 1"
  by code_simp+

lemma splice_start_examples:
  "splice_start (Fin (5 / 2)) len = min 2 len" "splice_start (Fin 0) len = 0"
  "splice_start (Fin (- 1)) len = len - 1" "splice_start (Fin 1) len = min 1 len"
  using to_integer_of_nat [of 0] to_integer_of_nat [of 1]
  by (auto simp: to_integer_examples)

lemma post_move_tanda_third_first:
  assumes "st pid = Some p" and "tandas p = [a, b, c, d, e, f]"
    and "cortinas p = [u, v, w, x, y, z]"
  shows "post_move_tanda pid (Num (Fin (5 / 2))) (Num (Fin 0)) now st =
     (Json 200 (p\<lparr>tandas := [c, a, b, d, e, f], cortinas := [w, u, v, x, y, z], updatedAt := now\<rparr>),
      st(pl_id p \<mapsto> p\<lparr>tandas := [c, a, b, d, e, f], cortinas := [w, u, v, x, y, z],
                         updatedAt := now\<rparr>))"
  unfolding post_move_tanda_def
  by (simp add: assms splice_remove_def splice_insert_def splice_start_examples
      normalizePlaylist_def del: splice_start.simps)

lemma post_move_tanda_last_second:
  assumes "st pid = Some p" and "tandas p = [a, b, c, d, e, f]"
    and "cortinas p = [u, v, w, x, y, z]"
  shows "post_move_tanda pid (Num (Fin (- 1))) (Num (Fin 1)) now st =
     (Json 200 (p\<lparr>tandas := [a, f, b, c, d, e], cortinas := [u, z, v, w, x, y], updatedAt := now\<rparr>),
      st(pl_id p \<mapsto> p\<lparr>tandas := [a, f, b, c, d, e], cortinas := [u, z, v, w, x, y],
                         updatedAt := now\<rparr>))"
  unfolding post_move_tanda_def
  by (simp add: assms splice_remove_def splice_insert_def splice_start_examples
      normalizePlaylist_def del: splice_start.simps)

lemma sample_playlist_lists:
  "tandas sample_playlist =
     [sample_tanda 1 ''tango'' [Some (mk_track ''t1'' Tango)],
      sample_tanda 2 ''tango'' [Some (mk_track ''t2'' Tango)],
      sample_tanda 3 ''vals'' [Some (mk_track ''v1'' Vals)],
      sample_tanda 4 ''tango'' [],
      sample_tanda 5 ''tango'' [],
      sample_tanda 6 ''milonga'' [Some (mk_track ''m1'' Milonga)]]"
  "cortinas sample_playlist =
     [Some (mk_track ''c1'' Cortina), None, Some (mk_track ''c2'' Cortina), None, None, None]"
  "pl_id sample_playlist = ''playlist-1''"
  by (simp_all add: sample_playlist_def)

lemma sample_tanda_neq: "ty \<noteq> ty' \<Longrightarrow> sample_tanda k ty ts \<noteq> sample_tanda k' ty' ts'"
  by (simp add: sample_tanda_def)

text \<open>
  Claim C7. For a stored playlist with six tandas and six cortinas and integers
  \<open>fromIndex = i\<close>, \<open>toIndex = j\<close> in \<open>0..5\<close>, the handler answers with the updated playlist
  and stores it; the tanda-cortina pairs of the result are a permutation of those before
  (equal multisets), the pair that stood at \<open>i\<close> stands at \<open>j\<close>, and for \<open>i = j\<close> the
  result is the playlist as it was with only \<open>updatedAt\<close> stamped anew.
\<close>

theorem move_tanda_is_a_permutation:
  assumes "st pid = Some p" and "length (tandas p) = 6" and "length (cortinas p) = 6"
    and "i \<le> 5" and "j \<le> 5"
  shows "\<exists>u. post_move_tanda pid (Num (Fin (of_nat i))) (Num (Fin (of_nat j))) now st =
               (Json 200 u, st(pl_id p \<mapsto> u)) \<and>
             length (tandas u) = 6 \<and> length (cortinas u) = 6 \<and>
             mset (zip (tandas u) (cortinas u)) = mset (zip (tandas p) (cortinas p)) \<and>
             (tandas u ! j, cortinas u ! j) = (tandas p ! i, cortinas p ! i) \<and>
             (i = j \<longrightarrow> u = p\<lparr>updatedAt := now\<rparr>)"
proof -
  let ?u = "p\<lparr>tandas := moved i j (tandas p), cortinas := moved i j (cortinas p),
               updatedAt := now\<rparr>"
  have i: "i < length (tandas p)" "i < length (cortinas p)"
    and j: "j < length (tandas p)" "j < length (cortinas p)"
    and l: "length (cortinas p) = length (tandas p)" "length (tandas p) = length (cortinas p)"
    using assms by simp_all
  have r: "post_move_tanda pid (Num (Fin (of_nat i))) (Num (Fin (of_nat j))) now st =
               (Json 200 ?u, st(pl_id p \<mapsto> ?u))"
    by (rule post_move_tanda_in_range
          [where st = st and pid = pid and p = p and i = i and j = j,
            OF assms(1) l(1) i(1) j(1)])
  have n: "length (tandas ?u) = 6" "length (cortinas ?u) = 6"
    using assms(2,3) i by (simp_all add: length_moved)
  have m: "mset (zip (tandas ?u) (cortinas ?u)) = mset (zip (tandas p) (cortinas p))"
  proof -
    have "i < length (zip (tandas p) (cortinas p))"
      using i by simp
    then have "mset (moved i j (zip (tandas p) (cortinas p))) = mset (zip (tandas p) (cortinas p))"
      by (rule mset_moved)
    then show ?thesis
      by (simp add: zip_moved [OF l(2) i(1)])
  qed
  have a: "(tandas ?u ! j, cortinas ?u ! j) = (tandas p ! i, cortinas p ! i)"
    using i j by (simp add: nth_moved)
  have s: "i = j \<longrightarrow> ?u = p\<lparr>updatedAt := now\<rparr>"
    using i by (auto simp: moved_same)
  show ?thesis
    apply (rule exI [of _ ?u])
    apply (intro conjI)
         apply (rule r)
        apply (rule n(1))
       apply (rule n(2))
      apply (rule m)
     apply (rule a)
    apply (rule s)
    done
qed

theorem move_tanda_is_a_permutation_witness:
  "sample_store ''playlist-1'' = Some sample_playlist \<and>
   length (tandas sample_playlist) = 6 \<and> length (cortinas sample_playlist) = 6 \<and>
   (2 :: nat) \<le> 5 \<and> (0 :: nat) \<le> 5 \<and>
   (\<exists>u. post_move_tanda ''playlist-1'' (Num (Fin (of_nat 2))) (Num (Fin (of_nat 0)))
            ''2024-01-02T21:00:00.000Z'' sample_store =
          (Json 200 u, sample_store(pl_id sample_playlist \<mapsto> u)) \<and>
        length (tandas u) = 6 \<and> length (cortinas u) = 6 \<and>
        mset (zip (tandas u) (cortinas u)) =
          mset (zip (tandas sample_playlist) (cortinas sample_playlist)) \<and>
        (tandas u ! 0, cortinas u ! 0) = (tandas sample_playlist ! 2, cortinas sample_playlist ! 2) \<and>
        ((2 :: nat) = 0 \<longrightarrow> u = sample_playlist\<lparr>updatedAt := ''2024-01-02T21:00:00.000Z''\<rparr>)) \<and>
   (\<exists>u. post_move_tanda ''playlist-1'' (Num (Fin (of_nat 3))) (Num (Fin (of_nat 3)))
            ''2024-01-02T21:00:00.000Z'' sample_store =
          (Json 200 u, sample_store(pl_id sample_playlist \<mapsto> u)) \<and>
        u = sample_playlist\<lparr>updatedAt := ''2024-01-02T21:00:00.000Z''\<rparr>)"
proof -
  have l: "length (tandas sample_playlist) = 6" "length (cortinas sample_playlist) = 6"
    by (simp_all add: sample_playlist_lists)
  have a: "(2 :: nat) \<le> 5" "(0 :: nat) \<le> 5" "(3 :: nat) \<le> 5"
    by simp_all
  note m1 = move_tanda_is_a_permutation
      [where st = sample_store and p = sample_playlist and i = 2 and j = 0
         and now = "''2024-01-02T21:00:00.000Z''",
       OF sample_store_lookup l a(1) a(2)]
  note m2 = move_tanda_is_a_permutation
      [where st = sample_store and p = sample_playlist and i = 3 and j = 3
         and now = "''2024-01-02T21:00:00.000Z''",
       OF sample_store_lookup l a(3) a(3)]
  from m2 have m3: "\<exists>u. post_move_tanda ''playlist-1'' (Num (Fin (of_nat 3))) (Num (Fin (of_nat 3)))
            ''2024-01-02T21:00:00.000Z'' sample_store =
          (Json 200 u, sample_store(pl_id sample_playlist \<mapsto> u)) \<and>
        u = sample_playlist\<lparr>updatedAt := ''2024-01-02T21:00:00.000Z''\<rparr>"
    by blast
  show ?thesis
    using sample_store_lookup l a(1) a(2) m1 m3 by blast
qed

text \<open>
  Claim C6, as amended. With a stored playlist, the handler rejects the request with
  status 400 (\<open>fromIndex and toIndex must be numbers\<close>) and leaves the stored playlists
  as they are whenever \<open>fromIndex\<close> or \<open>toIndex\<close> is not of type number (missing,
  \<open>null\<close>, a string, ...).
\<close>

theorem move_tanda_rejects_non_numbers:
  assumes "st pid = Some p" and "\<not> is_number fromIndex \<or> \<not> is_number toIndex"
  shows "post_move_tanda pid fromIndex toIndex now st =
           (Failure 400 ''fromIndex and toIndex must be numbers'', st)"
  using assms by (cases fromIndex; cases toIndex) (simp_all add: post_move_tanda_def)

theorem move_tanda_rejects_non_numbers_witness:
  "sample_store ''playlist-1'' = Some sample_playlist \<and>
   \<not> is_number (Str ''2'') \<and>
   post_move_tanda ''playlist-1'' (Str ''2'') (Num (Fin 0)) ''2024-01-02T21:00:00.000Z''
       sample_store =
     (Failure 400 ''fromIndex and toIndex must be numbers'', sample_store) \<and>
   \<not> is_number Undefined \<and>
   post_move_tanda ''playlist-1'' (Num (Fin 1)) Undefined ''2024-01-02T21:00:00.000Z''
       sample_store =
     (Failure 400 ''fromIndex and toIndex must be numbers'', sample_store)"
proof -
  have a: "\<not> is_number (Str ''2'') \<or> \<not> is_number (Num (Fin 0))"
    and b: "\<not> is_number (Num (Fin 1)) \<or> \<not> is_number Undefined"
    by simp_all
  show ?thesis
    using sample_store_lookup
      move_tanda_rejects_non_numbers [where st = sample_store, OF sample_store_lookup a]
      move_tanda_rejects_non_numbers [where st = sample_store, OF sample_store_lookup b]
    by simp
qed

text \<open>
  The claim as stated asks the same for every index that is not an integer in \<open>0..5\<close>.
  A number is never rejected: \<open>2.5\<close> is truncated by \<open>splice\<close> and moves the third
  tanda, \<open>-1\<close> counts from the end and moves the last; both requests are answered with
  the changed playlist, which is stored.
\<close>

theorem move_tanda_accepts_fraction_and_negative:
  "post_move_tanda ''playlist-1'' (Num (Fin (5 / 2))) (Num (Fin 0)) ''2024-01-02T21:00:00.000Z''
       sample_store =
     (Json 200 sample_third_first, sample_store(''playlist-1'' \<mapsto> sample_third_first)) \<and>
   post_move_tanda ''playlist-1'' (Num (Fin (- 1))) (Num (Fin 1)) ''2024-01-02T21:00:00.000Z''
       sample_store =
     (Json 200 sample_last_second, sample_store(''playlist-1'' \<mapsto> sample_last_second)) \<and>
   tandas sample_third_first \<noteq> tandas sample_playlist \<and>
   tandas sample_last_second \<noteq> tandas sample_playlist"
proof -
  have a: "post_move_tanda ''playlist-1'' (Num (Fin (5 / 2))) (Num (Fin 0))
       ''2024-01-02T21:00:00.000Z'' sample_store =
     (Json 200 sample_third_first, sample_store(''playlist-1'' \<mapsto> sample_third_first))"
    unfolding post_move_tanda_third_first
        [where st = sample_store and p = sample_playlist,
          OF sample_store_lookup sample_playlist_lists(1,2)]
      sample_third_first_def sample_playlist_lists(3) ..
  have b: "post_move_tanda ''playlist-1'' (Num (Fin (- 1))) (Num (Fin 1))
       ''2024-01-02T21:00:00.000Z'' sample_store =
     (Json 200 sample_last_second, sample_store(''playlist-1'' \<mapsto> sample_last_second))"
    unfolding post_move_tanda_last_second
        [where st = sample_store and p = sample_playlist,
          OF sample_store_lookup sample_playlist_lists(1,2)]
      sample_last_second_def sample_playlist_lists(3) ..
  have c: "tandas sample_third_first \<noteq> tandas sample_playlist"
    unfolding sample_playlist_lists(1) sample_third_first_def
    by (simp add: sample_tanda_neq)
  have d: "tandas sample_last_second \<noteq> tandas sample_playlist"
    unfolding sample_playlist_lists(1) sample_last_second_def
    by (simp add: sample_tanda_neq)
  show ?thesis using a b c d by blast
qed

section \<open>Replacing a track\<close>

lemma array_index_of_nat: "array_index (Fin (of_nat k)) = Some k"
  by (simp add: array_index_def)

lemma array_set_in_range:
  "k < length xs \<Longrightarrow> array_set xs (Fin (of_nat k)) v = xs[k := Some v]"
  by (simp add: array_set_def array_index_of_nat)

lemma array_set_at_end:
  "length xs < 4294967295 \<Longrightarrow> array_set xs (Fin (of_nat (length xs))) v = xs @ [Some v]"
  by (simp add: array_set_def array_index_of_nat)

lemma post_replace_track_in_range:
  assumes "st pid = Some p"
    and "find (\<lambda>t. Str (track_id t) = replacementTrackId) library = Some replacement"
    and "i < length (tandas p)" and "k < length (tracks (tandas p ! i))"
  shows "post_replace_track pid (Fin (of_nat i)) (Fin (of_nat k)) replacementTrackId now library st =
     (Json 200
        (p\<lparr>tandas := (tandas p)
               [i := (tandas p ! i)\<lparr>tracks := (tracks (tandas p ! i))[k := Some replacement]\<rparr>],
           updatedAt := now\<rparr>),
      st(pl_id p \<mapsto>
        p\<lparr>tandas := (tandas p)
               [i := (tandas p ! i)\<lparr>tracks := (tracks (tandas p ! i))[k := Some replacement]\<rparr>],
           updatedAt := now\<rparr>))"
  using assms
  by (simp add: post_replace_track_def array_index_of_nat array_set_in_range
      normalizePlaylist_Some Let_def)

lemma post_replace_track_at_end:
  assumes "st pid = Some p"
    and "find (\<lambda>t. Str (track_id t) = replacementTrackId) library = Some replacement"
    and "i < length (tandas p)" and "length (tracks (tandas p ! i)) < 4294967295"
  shows "post_replace_track pid (Fin (of_nat i)) (Fin (of_nat (length (tracks (tandas p ! i)))))
           replacementTrackId now library st =
     (Json 200
        (p\<lparr>tandas := (tandas p)
               [i := (tandas p ! i)\<lparr>tracks := tracks (tandas p ! i) @ [Some replacement]\<rparr>],
           updatedAt := now\<rparr>),
      st(pl_id p \<mapsto>
        p\<lparr>tandas := (tandas p)
               [i := (tandas p ! i)\<lparr>tracks := tracks (tandas p ! i) @ [Some replacement]\<rparr>],
           updatedAt := now\<rparr>))"
  using assms
  by (simp add: post_replace_track_def array_index_of_nat array_set_at_end
      normalizePlaylist_Some Let_def)

lemma sample_find_t2:
  "find (\<lambda>t. Str (track_id t) = Str ''t2'') sample_library = Some (mk_track ''t2'' Tango)"
  by (simp add: sample_library_def mk_track_def)

lemma sample_tanda_tracks [simp]: "tracks (sample_tanda k ty ts) = ts"
  by (simp add: sample_tanda_def)

lemma sample_tanda_with_tracks:
  "(sample_tanda k ty ts)\<lparr>tracks := ts'\<rparr> = sample_tanda k ty ts'"
  by (simp add: sample_tanda_def)

text \<open>
  Claim C8. With a stored playlist and a \<open>replacementTrackId\<close> that is the id of no catalog
  track, the handler rejects the request (status 400, \<open>replacementTrackId not found in
  library\<close>) whatever the two indices are, and the stored playlists are exactly what they
  were: nothing is written, no timestamp is touched.
\<close>

theorem replace_track_unknown_replacement_rejected:
  assumes "st pid = Some p"
    and "replacementTrackId \<notin> (\<lambda>t. Str (track_id t)) ` set library"
  shows "post_replace_track pid tandaIndex trackIndex replacementTrackId now library st =
           (Failure 400 ''replacementTrackId not found in library'', st)"
proof -
  have "find (\<lambda>t. Str (track_id t) = replacementTrackId) library = None"
    using assms(2) by (auto simp: find_None_iff)
  then show ?thesis
    by (simp add: post_replace_track_def assms(1))
qed

theorem replace_track_unknown_replacement_rejected_witness:
  "sample_store ''playlist-1'' = Some sample_playlist \<and>
   Str ''zz'' \<notin> (\<lambda>t. Str (track_id t)) ` set sample_library \<and>
   post_replace_track ''playlist-1'' (Fin 0) (Fin 0) (Str ''zz'') ''2024-01-02T21:00:00.000Z''
       sample_library sample_store =
     (Failure 400 ''replacementTrackId not found in library'', sample_store)"
proof -
  have a: "Str ''zz'' \<notin> (\<lambda>t. Str (track_id t)) ` set sample_library"
    by (simp add: sample_library_def mk_track_def)
  show ?thesis
    using sample_store_lookup a
      replace_track_unknown_replacement_rejected
        [where st = sample_store, OF sample_store_lookup a]
    by simp
qed

text \<open>
  Claim C9, as amended. With a stored playlist, a replacement id found in the catalog
  and indices that name an existing track (\<open>tandaIndex = i\<close> below the number of tandas,
  \<open>trackIndex = k\<close> below the number of tracks of that tanda), the handler stores and
  returns the playlist in which only that track is overwritten: the tanda keeps its
  length, its other tracks, its id, style and reasoning; the other tandas, the cortinas,
  and the id, name, prompt, generation source, debug record and creation time of the
  playlist are unchanged, and \<open>updatedAt\<close> is stamped anew. Nothing compares the
  replacement with the tracks already in the playlist.
\<close>

theorem replace_track_overwrites_one_position:
  assumes "st pid = Some p"
    and "find (\<lambda>t. Str (track_id t) = replacementTrackId) library = Some replacement"
    and "i < length (tandas p)" and "k < length (tracks (tandas p ! i))"
  shows "\<exists>u. post_replace_track pid (Fin (of_nat i)) (Fin (of_nat k)) replacementTrackId now
                library st = (Json 200 u, st(pl_id p \<mapsto> u)) \<and>
             u = p\<lparr>tandas := (tandas p)
                       [i := (tandas p ! i)
                          \<lparr>tracks := (tracks (tandas p ! i))[k := Some replacement]\<rparr>],
                   updatedAt := now\<rparr> \<and>
             length (tandas u) = length (tandas p) \<and>
             length (tracks (tandas u ! i)) = length (tracks (tandas p ! i)) \<and>
             tracks (tandas u ! i) ! k = Some replacement \<and>
             (\<forall>m. m \<noteq> k \<longrightarrow> tracks (tandas u ! i) ! m = tracks (tandas p ! i) ! m) \<and>
             tanda_id (tandas u ! i) = tanda_id (tandas p ! i) \<and>
             tanda_type (tandas u ! i) = tanda_type (tandas p ! i) \<and>
             reasoning (tandas u ! i) = reasoning (tandas p ! i) \<and>
             (\<forall>n. n \<noteq> i \<longrightarrow> tandas u ! n = tandas p ! n) \<and>
             cortinas u = cortinas p \<and>
             pl_id u = pl_id p \<and> pl_name u = pl_name p \<and> prompt u = prompt p \<and>
             generationSource u = generationSource p \<and> agentDebug u = agentDebug p \<and>
             createdAt u = createdAt p \<and> updatedAt u = now"
proof -
  let ?u = "p\<lparr>tandas := (tandas p)
                       [i := (tandas p ! i)
                          \<lparr>tracks := (tracks (tandas p ! i))[k := Some replacement]\<rparr>],
                   updatedAt := now\<rparr>"
  have r: "post_replace_track pid (Fin (of_nat i)) (Fin (of_nat k)) replacementTrackId now
                library st = (Json 200 ?u, st(pl_id p \<mapsto> ?u))"
    by (rule post_replace_track_in_range
          [where st = st and pid = pid and p = p, OF assms])
  show ?thesis
    apply (rule exI [of _ ?u])
    apply (intro conjI)
                     apply (rule r)
                    apply (rule refl)
    using assms(3,4) apply simp_all
    done
qed
theorem replace_track_overwrites_one_position_witness:
  "sample_store ''playlist-1'' = Some sample_playlist \<and>
   find (\<lambda>t. Str (track_id t) = Str ''t2'') sample_library = Some (mk_track ''t2'' Tango) \<and>
   (0 :: nat) < length (tandas sample_playlist) \<and>
   (0 :: nat) < length (tracks (tandas sample_playlist ! 0)) \<and>
   (\<exists>u. post_replace_track ''playlist-1'' (Fin (of_nat 0)) (Fin (of_nat 0)) (Str ''t2'')
              ''2024-01-02T21:00:00.000Z'' sample_library sample_store =
            (Json 200 u, sample_store(pl_id sample_playlist \<mapsto> u)) \<and>
          length (tracks (tandas u ! 0)) = length (tracks (tandas sample_playlist ! 0)) \<and>
          tracks (tandas u ! 0) ! 0 = Some (mk_track ''t2'' Tango) \<and>
          tandas u ! 1 = tandas sample_playlist ! 1 \<and>
          tracks (tandas u ! 1) ! 0 = Some (mk_track ''t2'' Tango) \<and>
          cortinas u = cortinas sample_playlist \<and>
          createdAt u = createdAt sample_playlist \<and>
          updatedAt u = ''2024-01-02T21:00:00.000Z'')"
proof -
  have a: "(0 :: nat) < length (tandas sample_playlist)"
    and b: "(0 :: nat) < length (tracks (tandas sample_playlist ! 0))"
    and c: "tracks (tandas sample_playlist ! 1) ! 0 = Some (mk_track ''t2'' Tango)"
    by (simp_all add: sample_playlist_lists)
  from replace_track_overwrites_one_position
      [where st = sample_store and p = sample_playlist and i = 0 and k = 0
         and now = "''2024-01-02T21:00:00.000Z''",
       OF sample_store_lookup sample_find_t2 a b]
  obtain u where
    u: "post_replace_track ''playlist-1'' (Fin (of_nat 0)) (Fin (of_nat 0)) (Str ''t2'')
              ''2024-01-02T21:00:00.000Z'' sample_library sample_store =
            (Json 200 u, sample_store(pl_id sample_playlist \<mapsto> u))"
      "length (tracks (tandas u ! 0)) = length (tracks (tandas sample_playlist ! 0))"
      "tracks (tandas u ! 0) ! 0 = Some (mk_track ''t2'' Tango)"
      "\<forall>n. n \<noteq> 0 \<longrightarrow> tandas u ! n = tandas sample_playlist ! n"
      "cortinas u = cortinas sample_playlist"
      "createdAt u = createdAt sample_playlist"
      "updatedAt u = ''2024-01-02T21:00:00.000Z''"
    by blast
  from u(4) have d: "tandas u ! 1 = tandas sample_playlist ! 1"
    by simp
  have e: "tracks (tandas u ! 1) ! 0 = Some (mk_track ''t2'' Tango)"
    unfolding d by (rule c)
  show ?thesis
    using sample_store_lookup sample_find_t2 a b u(1,2,3,5,6,7) d e by blast
qed

text \<open>
  The claim as stated has no condition on the indices. The assignment
  \<open>tracks[trackIndex] = replacement\<close> is not guarded: with \<open>trackIndex\<close> equal to the
  number of tracks the array grows, so the tanda that had one track has two.
\<close>

theorem replace_track_past_the_end_grows_tanda:
  "post_replace_track ''playlist-1'' (Fin 0) (Fin 1) (Str ''t2'') ''2024-01-02T21:00:00.000Z''
       sample_library sample_store =
     (Json 200 sample_first_grown, sample_store(''playlist-1'' \<mapsto> sample_first_grown)) \<and>
   length (tracks (tandas sample_playlist ! 0)) = 1 \<and>
   length (tracks (tandas sample_first_grown ! 0)) = 2"
proof -
  have n: "(0 :: nat) < length (tandas sample_playlist)"
    by (simp add: sample_playlist_lists)
  have l: "length (tracks (tandas sample_playlist ! 0)) = 1"
    by (simp add: sample_playlist_lists)
  have m: "length (tracks (tandas sample_playlist ! 0)) < 4294967295"
    unfolding l by simp
  have g: "post_replace_track ''playlist-1'' (Fin (of_nat 0))
       (Fin (of_nat (length (tracks (tandas sample_playlist ! 0))))) (Str ''t2'')
       ''2024-01-02T21:00:00.000Z'' sample_library sample_store =
     (Json 200
        (sample_playlist\<lparr>tandas := (tandas sample_playlist)
               [0 := (tandas sample_playlist ! 0)
                  \<lparr>tracks := tracks (tandas sample_playlist ! 0) @ [Some (mk_track ''t2'' Tango)]\<rparr>],
           updatedAt := ''2024-01-02T21:00:00.000Z''\<rparr>),
      sample_store(pl_id sample_playlist \<mapsto>
        sample_playlist\<lparr>tandas := (tandas sample_playlist)
               [0 := (tandas sample_playlist ! 0)
                  \<lparr>tracks := tracks (tandas sample_playlist ! 0) @ [Some (mk_track ''t2'' Tango)]\<rparr>],
           updatedAt := ''2024-01-02T21:00:00.000Z''\<rparr>))"
    by (rule post_replace_track_at_end
          [where st = sample_store and p = sample_playlist and i = 0,
            OF sample_store_lookup sample_find_t2 n m])
  have a: "post_replace_track ''playlist-1'' (Fin 0) (Fin 1) (Str ''t2'')
       ''2024-01-02T21:00:00.000Z'' sample_library sample_store =
     (Json 200 sample_first_grown, sample_store(''playlist-1'' \<mapsto> sample_first_grown))"
    using g unfolding l sample_first_grown_def
    by (simp add: sample_playlist_lists sample_tanda_with_tracks)
  have b: "length (tracks (tandas sample_playlist ! 0)) = 1"
    by (simp add: sample_playlist_lists)
  have c: "length (tracks (tandas sample_first_grown ! 0)) = 2"
    by (simp add: sample_first_grown_def)
  show ?thesis using a b c by blast
qed

end
